theory Spec2Isabelle
  imports Complex_Main "HOL-Library.Char_ord" "HOL-Library.List_Lexorder"
    "HOL-Library.Product_Lexorder"
begin

section \<open>Python values and exceptions\<close>

text \<open>
  The preprocessing scripts and the dashboard shell are Python over pandas, numpy,
  scikit-learn, pycountry and pycountry_convert. Exceptions are values of
  \<open>py_error\<close>; a function that may raise returns \<open>py_error + 'a\<close>, with
  \<open>Inl\<close> for the exception.
\<close>

datatype py_error = KeyError | ValueError | IndexError | TypeError | LookupError | LinAlgError

section \<open>Strings: \<open>str.strip\<close> and \<open>str.title\<close>\<close>


definition is_space :: "char \<Rightarrow> bool" where
  "is_space c = (let n = (of_char c :: nat) in (9 \<le> n \<and> n \<le> 13) \<or> (28 \<le> n \<and> n \<le> 32))"

definition is_upper :: "char \<Rightarrow> bool" where
  "is_upper c = (CHR ''A'' \<le> c \<and> c \<le> CHR ''Z'')"

definition is_lower :: "char \<Rightarrow> bool" where
  "is_lower c = (CHR ''a'' \<le> c \<and> c \<le> CHR ''z'')"

definition is_cased :: "char \<Rightarrow> bool" where
  "is_cased c = (is_upper c \<or> is_lower c)"

definition lower :: "char \<Rightarrow> char" where
  "lower c = (if is_upper c then char_of (of_char c + (32::nat)) else c)"

definition upper :: "char \<Rightarrow> char" where
  "upper c = (if is_lower c then char_of (of_char c - (32::nat)) else c)"

definition strip :: "string \<Rightarrow> string" where
  "strip s = rev (dropWhile is_space (rev (dropWhile is_space s)))"

text \<open>
  \<open>str.title\<close> walks the string once: a character that follows a cased character is
  lower-cased, any other character is title-cased; the flag is whether the character just
  read (before mapping) is cased.
\<close>

fun title_from :: "bool \<Rightarrow> string \<Rightarrow> string" where
  "title_from previous_is_cased [] = []"
| "title_from previous_is_cased (c # cs) =
     (if previous_is_cased then lower c else upper c) # title_from (is_cased c) cs"

definition title :: "string \<Rightarrow> string" where
  "title s = title_from False s"

section \<open>CountryCodeResolver: \<open>get_country_code\<close>\<close>

text \<open>
  \<open>main_pipeline.get_country_code\<close> and \<open>process_disease_metrics.get_country_code\<close>
  have the same body; they differ in the name of the override dictionary
  (\<open>country_code_mapping\<close>, \<open>country_code_dict\<close>), which they import from the
  repository's \<open>dictionary\<close> module. That module is not among the sources, so the
  dictionary is the parameter \<open>country_code_mapping\<close>. \<open>pycountry.countries.lookup\<close>
  is the parameter \<open>pycountry_lookup\<close>: the alpha-3 code of the country it finds, \<open>None\<close>
  where it raises \<open>LookupError\<close>. The result \<open>None\<close> is Python's \<open>None\<close>.
\<close>

definition get_country_code ::
  "(string \<rightharpoonup> string) \<Rightarrow> (string \<rightharpoonup> string) \<Rightarrow> string \<Rightarrow> string option" where
  "get_country_code country_code_mapping pycountry_lookup country_name =
     (let country_name_normalized = title (strip country_name) in
      case country_code_mapping country_name_normalized of
        Some code \<Rightarrow> Some code
      | None \<Rightarrow> pycountry_lookup country_name_normalized)"


section \<open>RegionClassifier: \<open>get_region\<close> of \<open>app.py\<close>\<close>

definition continent_map :: "string \<rightharpoonup> string" where
  "continent_map = map_of
     [(''NA'', ''North America''), (''SA'', ''South America''), (''EU'', ''Europe''),
      (''AS'', ''Asia''), (''OC'', ''Oceania''), (''AF'', ''Africa'')]"

definition manual_region_mapping :: "string \<rightharpoonup> string" where
  "manual_region_mapping = map_of
     [(''XKX'', ''Europe''), (''OWID_KOS'', ''Europe''), (''SXM'', ''North America''),
      (''TLS'', ''Asia'')]"

text \<open>
  \<open>pycountry.countries.get(alpha_3=code)\<close> is the parameter \<open>pycountry_alpha_3\<close>: the
  alpha-2 code of the registry's entry, \<open>None\<close> when the registry has no such entry.
\<close>

definition alpha3_to_alpha2 :: "(string \<rightharpoonup> string) \<Rightarrow> string \<Rightarrow> string option" where
  "alpha3_to_alpha2 pycountry_alpha_3 alpha3_code = pycountry_alpha_3 alpha3_code"

text \<open>
  \<open>pycountry_convert.country_alpha2_to_continent_code\<close> looks its argument up in the
  library's table (the parameter \<open>alpha2_to_continent\<close>) and raises \<open>KeyError\<close> for
  an argument that is not a key of it, \<open>None\<close> included.
\<close>

definition country_alpha2_to_continent_code ::
  "(string \<rightharpoonup> string) \<Rightarrow> string option \<Rightarrow> py_error + string" where
  "country_alpha2_to_continent_code alpha2_to_continent country_2_code =
     (case country_2_code of
        None \<Rightarrow> Inl KeyError
      | Some a2 \<Rightarrow>
          (case alpha2_to_continent a2 of
             None \<Rightarrow> Inl KeyError
           | Some continent_code \<Rightarrow> Inr continent_code))"

definition get_region ::
  "(string \<rightharpoonup> string) \<Rightarrow> (string \<rightharpoonup> string) \<Rightarrow> string \<Rightarrow> py_error + string" where
  "get_region pycountry_alpha_3 alpha2_to_continent country_code =
     (case manual_region_mapping country_code of
        Some region \<Rightarrow> Inr region
      | None \<Rightarrow>
          (let country_code' =
                 (if length country_code = 3
                  then alpha3_to_alpha2 pycountry_alpha_3 country_code
                  else Some country_code)
           in case country_alpha2_to_continent_code alpha2_to_continent country_code' of
                Inl e \<Rightarrow> Inl e
              | Inr continent_code \<Rightarrow>
                  Inr (case continent_map continent_code of
                         Some region \<Rightarrow> region
                       | None \<Rightarrow> ''Unknown Region'')))"

definition region_names :: "string set" where
  "region_names =
     {''North America'', ''South America'', ''Europe'', ''Asia'', ''Oceania'', ''Africa'',
      ''Unknown Region''}"

section \<open>Data frames\<close>

text \<open>
  A pandas cell is missing (\<open>NaN\<close>, which also stands for \<open>None\<close>: \<open>isnull\<close> is true
  of both), a number or a string. Floating-point numbers are modelled as reals. A frame is
  the list of its column labels and the list of its rows, in order; a row gives the cell
  under each label, and is \<open>NaN\<close> at every label that is not a column of the frame.
\<close>

datatype cell = NaN | Num real | Txt string

type_synonym row = "string \<Rightarrow> cell"

record frame =
  columns :: "string list"
  rows :: "row list"

text \<open>A row built from a dictionary, as \<open>pd.DataFrame(list_of_dicts)\<close> builds its rows.\<close>

definition row_of :: "(string \<times> cell) list \<Rightarrow> row" where
  "row_of kvs = (\<lambda>c. case map_of kvs c of Some v \<Rightarrow> v | None \<Rightarrow> NaN)"

definition isnull :: "cell \<Rightarrow> bool" where
  "isnull c = (c = NaN)"

definition notnull :: "cell \<Rightarrow> bool" where
  "notnull c = (c \<noteq> NaN)"

fun is_number :: "cell \<Rightarrow> bool" where
  "is_number (Num v) = True"
| "is_number c = False"

fun is_text :: "cell \<Rightarrow> bool" where
  "is_text (Txt s) = True"
| "is_text c = False"

fun the_number :: "cell \<Rightarrow> real" where
  "the_number (Num v) = v"
| "the_number c = 0"

section \<open>Polynomial imputation\<close>

text \<open>
  \<open>numpy.polynomial.Polynomial.fit(x, y, deg)\<close> raises \<open>ValueError\<close> for an empty
  \<open>x\<close> and \<open>TypeError\<close> for data that are not numbers, and its least-squares solver raises
  \<open>LinAlgError\<close> on data with a \<open>NaN\<close> in it. Otherwise it returns the fitted
  polynomial; the numerical routine that computes it is the parameter \<open>lstsq\<close>, and the
  polynomial is modelled as the function from a point to its value there. Called on a
  column, the polynomial is evaluated cell by cell; a missing cell stays missing.
\<close>

type_synonym polyfit = "real list \<Rightarrow> real list \<Rightarrow> nat \<Rightarrow> real \<Rightarrow> real"

definition Polynomial_fit ::
  "polyfit \<Rightarrow> cell list \<Rightarrow> cell list \<Rightarrow> nat \<Rightarrow> py_error + (real \<Rightarrow> real)" where
  "Polynomial_fit lstsq x y deg =
     (if x = [] then Inl ValueError
      else if list_ex is_text x \<or> list_ex is_text y then Inl TypeError
      else if list_ex isnull x \<or> list_ex isnull y then Inl LinAlgError
      else Inr (lstsq (map the_number x) (map the_number y) deg))"

fun poly_call :: "(real \<Rightarrow> real) \<Rightarrow> cell \<Rightarrow> cell" where
  "poly_call poly (Num x) = Num (poly x)"
| "poly_call poly c = c"

text \<open>\<open>main_pipeline.impute_with_polynomial(df, target_col, degree=2)\<close>.\<close>

definition impute_with_polynomial ::
  "polyfit \<Rightarrow> frame \<Rightarrow> string \<Rightarrow> nat \<Rightarrow> py_error + frame" where
  "impute_with_polynomial lstsq df target_col degree =
     (if target_col \<notin> set (columns df) then Inl KeyError
      else
        let known_data = filter (\<lambda>r. notnull (r target_col)) (rows df) in
        if known_data = [] then Inr df
        else if ''Year'' \<notin> set (columns df) then Inl KeyError
        else
          (case Polynomial_fit lstsq (map (\<lambda>r. r ''Year'') known_data)
                  (map (\<lambda>r. r target_col) known_data) degree of
             Inl e \<Rightarrow> Inl e
           | Inr poly \<Rightarrow>
               if list_ex (\<lambda>r. is_text (r ''Year'')) (rows df) then Inl TypeError
               else Inr (df\<lparr>rows :=
                   map (\<lambda>r. r(target_col := poly_call poly (r ''Year''))) (rows df)\<rparr>)))"

text \<open>
  \<open>process_diabetes_alcohol.impute_with_polynomial(df, year_col, target_col, degree=2)\<close>:
  it has no guard for an empty selection, and assigns the predictions only under the mask
  \<open>df[target_col].isnull()\<close>. The predictions are a series over the index of the missing
  rows, so each missing row receives the polynomial's value at its own year.
\<close>

definition diabetes_alcohol_impute_with_polynomial ::
  "polyfit \<Rightarrow> frame \<Rightarrow> string \<Rightarrow> string \<Rightarrow> nat \<Rightarrow> py_error + frame" where
  "diabetes_alcohol_impute_with_polynomial lstsq df year_col target_col degree =
     (if target_col \<notin> set (columns df) then Inl KeyError
      else
        let known_data = filter (\<lambda>r. notnull (r target_col)) (rows df) in
        if year_col \<notin> set (columns df) then Inl KeyError
        else
          let missing_data = filter (\<lambda>r. isnull (r target_col)) (rows df) in
          (case Polynomial_fit lstsq (map (\<lambda>r. r year_col) known_data)
                  (map (\<lambda>r. r target_col) known_data) degree of
             Inl e \<Rightarrow> Inl e
           | Inr poly \<Rightarrow>
               if list_ex (\<lambda>r. is_text (r year_col)) missing_data then Inl TypeError
               else Inr (df\<lparr>rows :=
                   map (\<lambda>r. if isnull (r target_col)
                            then r(target_col := poly_call poly (r year_col)) else r)
                     (rows df)\<rparr>)))"

text \<open>
  The polynomial that both functions fit: the least-squares fit of the known values of
  the target column against the years of their rows.
\<close>

definition fitted_polynomial :: "polyfit \<Rightarrow> frame \<Rightarrow> string \<Rightarrow> string \<Rightarrow> nat \<Rightarrow> real \<Rightarrow> real" where
  "fitted_polynomial lstsq df year_col target_col degree =
     (let known_data = filter (\<lambda>r. notnull (r target_col)) (rows df) in
      lstsq (map (\<lambda>r. the_number (r year_col)) known_data)
        (map (\<lambda>r. the_number (r target_col)) known_data) degree)"

definition known_count :: "frame \<Rightarrow> string \<Rightarrow> nat" where
  "known_count df target_col = length (filter (\<lambda>r. notnull (r target_col)) (rows df))"

text \<open>
  A frame has a numeric year column and a numeric target column when both labels are
  columns, every year is a number and no target cell is a string.
\<close>

definition numeric_series :: "frame \<Rightarrow> string \<Rightarrow> string \<Rightarrow> bool" where
  "numeric_series df year_col target_col =
     (year_col \<in> set (columns df) \<and> target_col \<in> set (columns df) \<and>
      list_all (\<lambda>r. is_number (r year_col)) (rows df) \<and>
      list_all (\<lambda>r. \<not> is_text (r target_col)) (rows df))"

section \<open>KNN imputation\<close>

text \<open>
  \<open>sklearn.impute.KNNImputer(n_neighbors).fit_transform(X)\<close> on the matrix \<open>X\<close> (a list of
  rows): it raises \<open>ValueError\<close> for a matrix with no row and for a cell that is not a
  number or missing. A column with no observed value is left out of the result
  (\<open>keep_empty_features\<close> is false). In the columns that are kept, an observed cell is
  copied and a missing cell is replaced by an estimate from the rows that have the column
  observed (the mean over the nearest of them, or the column's mean). The estimate is the
  parameter \<open>est\<close>, given \<open>n_neighbors\<close>, the matrix, and the row and column of the cell.
\<close>

type_synonym knn_estimate = "nat \<Rightarrow> cell list list \<Rightarrow> nat \<Rightarrow> nat \<Rightarrow> real"

definition valid_columns :: "cell list list \<Rightarrow> nat list" where
  "valid_columns X = filter (\<lambda>j. list_ex (\<lambda>r. notnull (r ! j)) X) [0..<length (hd X)]"

definition KNNImputer_fit_transform ::
  "knn_estimate \<Rightarrow> nat \<Rightarrow> cell list list \<Rightarrow> py_error + real list list" where
  "KNNImputer_fit_transform est n_neighbors X =
     (if X = [] then Inl ValueError
      else if list_ex (list_ex is_text) X then Inl ValueError
      else Inr (map (\<lambda>i. map (\<lambda>j. case X ! i ! j of
                                    Num v \<Rightarrow> v
                                  | _ \<Rightarrow> est n_neighbors X i j)
                          (valid_columns X))
                 [0..<length X]))"

text \<open>
  \<open>main_pipeline.impute_with_knn(df, target_col, n_neighbors=5)\<close>.
  \<open>df.columns.difference(...)\<close> is the sorted list of the distinct labels that are not
  excluded; the target is appended last. \<open>[..., -1]\<close> takes the last column of the
  imputer's result and raises \<open>IndexError\<close> when the result has no column.
\<close>

definition impute_with_knn ::
  "knn_estimate \<Rightarrow> frame \<Rightarrow> string \<Rightarrow> nat \<Rightarrow> py_error + frame" where
  "impute_with_knn est df target_col n_neighbors =
     (let feature_cols = sort (remdups (filter
            (\<lambda>c. c \<notin> set [''Country'', ''Country_Code'', ''Age_Group'', ''Gender'', target_col])
            (columns df)));
          impute_cols = feature_cols @ [target_col]
      in
        if target_col \<notin> set (columns df) then Inl KeyError
        else
          (case KNNImputer_fit_transform est n_neighbors
                  (map (\<lambda>r. map r impute_cols) (rows df)) of
             Inl e \<Rightarrow> Inl e
           | Inr imputed \<Rightarrow>
               if list_ex (\<lambda>orow. orow = []) imputed then Inl IndexError
               else Inr (df\<lparr>rows :=
                   map (\<lambda>(r, orow). r(target_col := Num (last orow))) (zip (rows df) imputed)\<rparr>)))"

text \<open>
  A frame is ready for \<open>impute_with_knn\<close> on a target column when the column exists, the
  frame has a row, no cell of the target or of a column other than the four identifier
  columns is a string, and the target has an observed value.
\<close>

definition knn_ready :: "frame \<Rightarrow> string \<Rightarrow> bool" where
  "knn_ready df target_col =
     (target_col \<in> set (columns df) \<and> rows df \<noteq> [] \<and>
      list_all (\<lambda>r. \<not> is_text (r target_col) \<and>
          list_all (\<lambda>c. c \<in> set [''Country'', ''Country_Code'', ''Age_Group'', ''Gender''] \<or>
                        \<not> is_text (r c)) (columns df))
        (rows df) \<and>
      list_ex (\<lambda>r. notnull (r target_col)) (rows df))"

text \<open>The values of a frame, row by row (\<open>df.values\<close>).\<close>

definition cells :: "frame \<Rightarrow> cell list list" where
  "cells df = map (\<lambda>r. map r (columns df)) (rows df)"

section \<open>Example frames\<close>

text \<open>
  Small frames on which the functions are evaluated below. \<open>same_year_frame\<close> has two
  observations of the same year, as a table with one row per gender has;
  \<open>all_missing_frame\<close> has no observed value of its metric; \<open>one_known_frame\<close> has exactly
  one.
\<close>

definition same_year_frame :: frame where
  "same_year_frame =
     \<lparr>columns = [''Year'', ''Alcohol_Value''],
      rows = [row_of [(''Year'', Num 2000), (''Alcohol_Value'', Num 1)],
              row_of [(''Year'', Num 2000), (''Alcohol_Value'', Num 5)],
              row_of [(''Year'', Num 2001), (''Alcohol_Value'', NaN)]]\<rparr>"

definition all_missing_frame :: frame where
  "all_missing_frame =
     \<lparr>columns = [''Year'', ''Alcohol_Value''],
      rows = [row_of [(''Year'', Num 2000), (''Alcohol_Value'', NaN)],
              row_of [(''Year'', Num 2001), (''Alcohol_Value'', NaN)]]\<rparr>"

definition one_known_frame :: frame where
  "one_known_frame =
     \<lparr>columns = [''Year'', ''GDP''],
      rows = [row_of [(''Year'', Num 2000), (''GDP'', Num 5)],
              row_of [(''Year'', Num 2001), (''GDP'', NaN)]]\<rparr>"


text \<open>The values of one column, in row order (\<open>df[c]\<close>).\<close>

definition col_values :: "frame \<Rightarrow> string \<Rightarrow> cell list" where
  "col_values df c = map (\<lambda>r. r c) (rows df)"

section \<open>The tail of \<open>main_pipeline\<close>: imputation, GDP rule, output\<close>

text \<open>
  After the merge the script imputes ten columns with \<open>impute_with_knn\<close> in a loop
  (\<open>n_neighbors\<close> at its default 5), then sets every negative GDP to \<open>NaN\<close>, then drops
  the column \<open>BMI\<close> if there is one, and writes the frame.
\<close>

definition columns_to_impute :: "string list" where
  "columns_to_impute =
     [''Alcohol_Value'', ''IncidenceRate'', ''PrevalenceRate'', ''MortalityRate'',
      ''Diabetes_Prevalence_Rate'', ''Activity_Prevalence_Rate'', ''Obesity_Prevalence_Rate'',
      ''GDP'', ''Health_Expenditure (% of GDP)'', ''Life_Expectancy'']"

fun apply_knn_imputation :: "knn_estimate \<Rightarrow> frame \<Rightarrow> string list \<Rightarrow> py_error + frame" where
  "apply_knn_imputation est merged_df [] = Inr merged_df"
| "apply_knn_imputation est merged_df (col # cols) =
     (case impute_with_knn est merged_df col 5 of
        Inl e \<Rightarrow> Inl e
      | Inr merged_df' \<Rightarrow> apply_knn_imputation est merged_df' cols)"

text \<open>
  \<open>merged_df.loc[merged_df['GDP'] < 0, 'GDP'] = np.nan\<close>: the comparison raises
  \<open>TypeError\<close> on a string and is false on a missing cell.
\<close>

definition set_negative_gdp_to_nan :: "frame \<Rightarrow> py_error + frame" where
  "set_negative_gdp_to_nan merged_df =
     (if ''GDP'' \<notin> set (columns merged_df) then Inl KeyError
      else if list_ex (\<lambda>r. is_text (r ''GDP'')) (rows merged_df) then Inl TypeError
      else Inr (merged_df\<lparr>rows :=
          map (\<lambda>r. case r ''GDP'' of
                     Num v \<Rightarrow> if v < 0 then r(''GDP'' := NaN) else r
                   | _ \<Rightarrow> r)
            (rows merged_df)\<rparr>))"

definition drop_unnecessary_columns :: "frame \<Rightarrow> frame" where
  "drop_unnecessary_columns merged_df =
     (if ''BMI'' \<in> set (columns merged_df)
      then merged_df\<lparr>columns := filter (\<lambda>c. c \<noteq> ''BMI'') (columns merged_df),
                     rows := map (\<lambda>r. r(''BMI'' := NaN)) (rows merged_df)\<rparr>
      else merged_df)"

text \<open>The frame that \<open>to_csv\<close> writes, from the merged frame.\<close>

definition cleaned_final_data :: "knn_estimate \<Rightarrow> frame \<Rightarrow> py_error + frame" where
  "cleaned_final_data est merged_df =
     (case apply_knn_imputation est merged_df columns_to_impute of
        Inl e \<Rightarrow> Inl e
      | Inr imputed \<Rightarrow>
          (case set_negative_gdp_to_nan imputed of
             Inl e \<Rightarrow> Inl e
           | Inr cleaned \<Rightarrow> Inr (drop_unnecessary_columns cleaned)))"

text \<open>
  Modelled from the spec: the order of the scenario in the spec's testable properties,
  in which a negative GDP "becomes NaN prior to imputation". It is the same three steps with
  the GDP rule first; the code's order is \<open>cleaned_final_data\<close>.
\<close>

definition gdp_cleared_before_imputation :: "knn_estimate \<Rightarrow> frame \<Rightarrow> py_error + frame" where
  "gdp_cleared_before_imputation est merged_df =
     (case set_negative_gdp_to_nan merged_df of
        Inl e \<Rightarrow> Inl e
      | Inr cleaned \<Rightarrow>
          (case apply_knn_imputation est cleaned columns_to_impute of
             Inl e \<Rightarrow> Inl e
           | Inr imputed \<Rightarrow> Inr (drop_unnecessary_columns imputed)))"

definition gdp_frame :: frame where
  "gdp_frame =
     \<lparr>columns = [''Country'', ''Country_Code'', ''Year'', ''Gender'', ''Age_Group'',
                 ''IncidenceRate'', ''MortalityRate'', ''PrevalenceRate'',
                 ''Diabetes_Prevalence_Rate'', ''Alcohol_Value'', ''Activity_Prevalence_Rate'',
                 ''Obesity_Prevalence_Rate'', ''GDP'', ''Health_Expenditure (% of GDP)'',
                 ''Life_Expectancy''],
      rows = [row_of [(''Country'', Txt ''A''), (''Country_Code'', Txt ''AAA''),
                      (''Year'', Num 2000), (''Gender'', Txt ''Male''), (''Age_Group'', Num 0),
                      (''IncidenceRate'', Num 1), (''MortalityRate'', Num 1),
                      (''PrevalenceRate'', Num 1), (''Diabetes_Prevalence_Rate'', Num 1),
                      (''Alcohol_Value'', Num 1), (''Activity_Prevalence_Rate'', Num 1),
                      (''Obesity_Prevalence_Rate'', Num 1), (''GDP'', Num (-100)),
                      (''Health_Expenditure (% of GDP)'', Num 1), (''Life_Expectancy'', Num 70)],
              row_of [(''Country'', Txt ''B''), (''Country_Code'', Txt ''BBB''),
                      (''Year'', Num 2000), (''Gender'', Txt ''Male''), (''Age_Group'', Num 0),
                      (''IncidenceRate'', Num 2), (''MortalityRate'', Num 2),
                      (''PrevalenceRate'', Num 2), (''Diabetes_Prevalence_Rate'', Num 2),
                      (''Alcohol_Value'', Num 2), (''Activity_Prevalence_Rate'', Num 2),
                      (''Obesity_Prevalence_Rate'', Num 2), (''GDP'', Num 200),
                      (''Health_Expenditure (% of GDP)'', Num 2), (''Life_Expectancy'', NaN)]]\<rparr>"

section \<open>Disease metrics: \<open>_impute_with_polynomial_fit\<close>\<close>

text \<open>
  \<open>process_disease_metrics._impute_with_polynomial_fit(df, target_column,
  predictor_columns, degree=2)\<close>; an Isabelle name cannot begin with an underscore, so it
  is \<open>impute_with_polynomial_fit\<close> here. The regression of scikit-learn
  (\<open>PolynomialFeatures(degree)\<close> followed by \<open>LinearRegression\<close>) is the parameter
  \<open>regress\<close>: given the training matrix, the training targets and the degree, it is the
  prediction at a point. scikit-learn raises \<open>ValueError\<close> for a training set with no
  sample or no feature and for a cell that is missing or not a number. The check
  \<open>isinstance(df, pd.DataFrame)\<close> holds of every \<open>frame\<close>.
\<close>

type_synonym regression = "real list list \<Rightarrow> real list \<Rightarrow> nat \<Rightarrow> real list \<Rightarrow> real"

text \<open>
  The model is trained on the rows that have every predictor and the target observed; its
  prediction for a row is at the row's predictor values.
\<close>

definition model_predict :: "regression \<Rightarrow> frame \<Rightarrow> string \<Rightarrow> string list \<Rightarrow> nat \<Rightarrow> row \<Rightarrow> real" where
  "model_predict regress df target_column predictor_columns degree r =
     (let df_valid = filter (\<lambda>r. list_all (\<lambda>c. notnull (r c)) predictor_columns) (rows df);
          train = filter (\<lambda>r. \<not> isnull (r target_column)) df_valid;
          X_train = map (\<lambda>r. map (\<lambda>c. the_number (r c)) predictor_columns) train;
          y_train = map (\<lambda>r. the_number (r target_column)) train
      in regress X_train y_train degree (map (\<lambda>c. the_number (r c)) predictor_columns))"

definition impute_with_polynomial_fit ::
  "regression \<Rightarrow> frame \<Rightarrow> string \<Rightarrow> string list \<Rightarrow> nat \<Rightarrow> py_error + frame" where
  "impute_with_polynomial_fit regress df target_column predictor_columns degree =
     (if target_column \<notin> set (columns df) then Inl ValueError
      else if \<not> list_ex (\<lambda>r. isnull (r target_column)) (rows df) then Inr df
      else if list_ex (\<lambda>c. c \<notin> set (columns df)) predictor_columns then Inl ValueError
      else
        let missing_mask = (\<lambda>r. isnull (r target_column));
            df_valid = filter (\<lambda>r. list_all (\<lambda>c. notnull (r c)) predictor_columns) (rows df)
        in
          if df_valid = [] then Inr df
          else
            let train = filter (\<lambda>r. \<not> missing_mask r) df_valid;
                X_train = map (\<lambda>r. map r predictor_columns) train;
                y_train = map (\<lambda>r. r target_column) train;
                X_missing = map (\<lambda>r. map r predictor_columns) (filter missing_mask (rows df))
            in
              if train = [] \<or> predictor_columns = [] then Inl ValueError
              else if \<not> list_all (list_all is_number) X_train \<or> \<not> list_all is_number y_train
                then Inl ValueError
              else if \<not> list_all (list_all is_number) X_missing then Inl ValueError
              else Inr (df\<lparr>rows :=
                  map (\<lambda>r. if missing_mask r
                           then r(target_column :=
                                  Num (max (model_predict regress df target_column
                                              predictor_columns degree r) 0))
                           else r)
                    (rows df)\<rparr>))"

text \<open>
  A frame is ready for the regression on a target when the target and the predictors are
  columns, there is a predictor, every predictor cell is a number, no target cell is a
  string, and some row has its target observed.
\<close>

definition regression_ready :: "frame \<Rightarrow> string \<Rightarrow> string list \<Rightarrow> bool" where
  "regression_ready df target_column predictor_columns =
     (target_column \<in> set (columns df) \<and> predictor_columns \<noteq> [] \<and>
      list_all (\<lambda>c. c \<in> set (columns df)) predictor_columns \<and>
      list_all (\<lambda>r. list_all (\<lambda>c. is_number (r c)) predictor_columns \<and>
                   \<not> is_text (r target_column)) (rows df) \<and>
      list_ex (\<lambda>r. notnull (r target_column)) (rows df))"

definition rate_frame :: frame where
  "rate_frame =
     \<lparr>columns = [''Country'', ''Year'', ''IncidenceRate''],
      rows = [row_of [(''Country'', Txt ''A''), (''Year'', Num 2000), (''IncidenceRate'', Num 3)],
              row_of [(''Country'', Txt ''A''), (''Year'', Num 2001), (''IncidenceRate'', NaN)]]\<rparr>"

section \<open>Adding the missing years\<close>

text \<open>
  An elementwise comparison \<open>series == value\<close> is false at a missing cell.
  \<open>series.unique()\<close> lists the distinct values in order of first appearance.
  \<open>....iloc[0]\<close> raises \<open>IndexError\<close> on an empty selection.
\<close>

definition cell_eq :: "cell \<Rightarrow> cell \<Rightarrow> bool" where
  "cell_eq a b = (a \<noteq> NaN \<and> a = b)"

definition unique :: "cell list \<Rightarrow> cell list" where
  "unique xs = rev (remdups (rev xs))"

fun collect :: "(py_error + 'a) list \<Rightarrow> py_error + 'a list" where
  "collect [] = Inr []"
| "collect (x # xs) =
     (case x of
        Inl e \<Rightarrow> Inl e
      | Inr v \<Rightarrow> (case collect xs of Inl e \<Rightarrow> Inl e | Inr vs \<Rightarrow> Inr (v # vs)))"

text \<open>\<open>list(range(1960, 1990))\<close>.\<close>

definition years_1980_to_1989 :: "nat list" where
  "years_1980_to_1989 = [1960..<1990]"

text \<open>
  \<open>sort_values(by=[a, b])\<close> is a stable sort on the pair of the two cells, missing cells
  last. It raises \<open>TypeError\<close> on a column that mixes numbers and strings; where the model
  still needs an order between a number and a string, numbers come first.
\<close>

fun cell_rank :: "cell \<Rightarrow> nat \<times> real \<times> string" where
  "cell_rank (Num v) = (0, v, [])"
| "cell_rank (Txt s) = (1, 0, s)"
| "cell_rank NaN = (2, 0, [])"

definition mixed :: "cell list \<Rightarrow> bool" where
  "mixed cs = (list_ex is_number cs \<and> list_ex is_text cs)"

definition sort_values :: "string \<Rightarrow> string \<Rightarrow> frame \<Rightarrow> py_error + frame" where
  "sort_values a b df =
     (if a \<notin> set (columns df) \<or> b \<notin> set (columns df) then Inl KeyError
      else if mixed (map (\<lambda>r. r a) (rows df)) \<or> mixed (map (\<lambda>r. r b) (rows df)) then Inl TypeError
      else Inr (df\<lparr>rows := sort_key (\<lambda>r. (cell_rank (r a), cell_rank (r b))) (rows df)\<rparr>))"

text \<open>
  \<open>process_diabetes_alcohol._adding_missing_years(df)\<close> (the leading underscore is
  dropped). One placeholder row per country and year: the country, the year, the code of
  the first row of that country, and \<open>NaN\<close> in every other column. The placeholders are
  concatenated after the rows of \<open>df\<close> and the frame is sorted by country and year.
\<close>

definition adding_new_row :: "frame \<Rightarrow> cell \<Rightarrow> nat \<Rightarrow> py_error + row" where
  "adding_new_row df country year =
     (case filter (\<lambda>r. cell_eq (r ''Location'') country) (rows df) of
        [] \<Rightarrow> Inl IndexError
      | first # others \<Rightarrow>
          Inr (row_of ([(''Location'', country), (''Year'', Num (real year)),
                        (''Code'', first ''Code'')] @
                       map (\<lambda>col. (col, NaN))
                         (filter (\<lambda>col. col \<notin> set [''Location'', ''Year'', ''Code''])
                            (columns df)))))"

definition adding_missing_years :: "frame \<Rightarrow> py_error + frame" where
  "adding_missing_years df =
     (if ''Location'' \<notin> set (columns df) then Inl KeyError
      else
        let countries = unique (map (\<lambda>r. r ''Location'') (rows df)) in
        if countries \<noteq> [] \<and> ''Code'' \<notin> set (columns df) then Inl KeyError
        else
          (case collect (map (\<lambda>(country, year). adding_new_row df country year)
                          (List.product countries years_1980_to_1989)) of
             Inl e \<Rightarrow> Inl e
           | Inr new_rows \<Rightarrow>
               let new_columns =
                     (if new_rows = [] then []
                      else [''Location'', ''Year'', ''Code''] @
                           filter (\<lambda>col. col \<notin> set [''Location'', ''Year'', ''Code''])
                             (columns df))
               in sort_values ''Location'' ''Year''
                    \<lparr>columns = columns df @
                                filter (\<lambda>col. col \<notin> set (columns df)) new_columns,
                     rows = rows df @ new_rows\<rparr>))"

text \<open>
  \<open>main_pipeline.add_missing_years(df)\<close>: the same placeholders under the labels
  \<open>Country\<close> and \<open>Country_Code\<close>; it returns the frame of the placeholders alone.
\<close>

definition add_new_row :: "frame \<Rightarrow> cell \<Rightarrow> nat \<Rightarrow> py_error + row" where
  "add_new_row df country year =
     (case filter (\<lambda>r. cell_eq (r ''Country'') country) (rows df) of
        [] \<Rightarrow> Inl IndexError
      | first # others \<Rightarrow>
          Inr (row_of (map (\<lambda>col. (col, NaN))
                         (filter (\<lambda>col. col \<notin> set [''Country'', ''Year'', ''Country_Code''])
                            (columns df)) @
                       [(''Country'', country), (''Year'', Num (real year)),
                        (''Country_Code'', first ''Country_Code'')])))"

definition add_missing_years :: "frame \<Rightarrow> py_error + frame" where
  "add_missing_years df =
     (if ''Country'' \<notin> set (columns df) then Inl KeyError
      else
        let countries = unique (map (\<lambda>r. r ''Country'') (rows df)) in
        if countries \<noteq> [] \<and> ''Country_Code'' \<notin> set (columns df) then Inl KeyError
        else
          (case collect (map (\<lambda>(country, year). add_new_row df country year)
                          (List.product countries [1960..<1990])) of
             Inl e \<Rightarrow> Inl e
           | Inr new_rows \<Rightarrow>
               Inr \<lparr>columns =
                      (if new_rows = [] then []
                       else filter (\<lambda>col. col \<notin> set [''Country'', ''Year'', ''Country_Code''])
                              (columns df) @
                            [''Country'', ''Year'', ''Country_Code'']),
                    rows = new_rows\<rparr>))"

text \<open>How often a (country, year) pair occurs in a frame, under the given labels.\<close>

definition pair_count :: "string \<Rightarrow> string \<Rightarrow> frame \<Rightarrow> cell \<Rightarrow> cell \<Rightarrow> nat" where
  "pair_count country_col year_col df country year =
     length (filter (\<lambda>r. r country_col = country \<and> r year_col = year) (rows df))"

text \<open>The code of the first row of a country.\<close>

definition first_code :: "string \<Rightarrow> string \<Rightarrow> frame \<Rightarrow> cell \<Rightarrow> cell" where
  "first_code country_col code_col df country =
     (case filter (\<lambda>r. cell_eq (r country_col) country) (rows df) of
        [] \<Rightarrow> NaN
      | first # others \<Rightarrow> first code_col)"

text \<open>
  A frame is ready for the step when it has the country, code and year columns, every
  country is a string and every year is a number.
\<close>

definition years_ready :: "string \<Rightarrow> string \<Rightarrow> frame \<Rightarrow> bool" where
  "years_ready country_col code_col df =
     (country_col \<in> set (columns df) \<and> code_col \<in> set (columns df) \<and>
      ''Year'' \<in> set (columns df) \<and>
      list_all (\<lambda>r. is_text (r country_col) \<and> is_number (r ''Year'')) (rows df))"

definition two_gender_frame :: frame where
  "two_gender_frame =
     \<lparr>columns = [''Location'', ''Code'', ''Gender'', ''Year'', ''Prevalence of diabetes (18+ years)''],
      rows = [row_of [(''Location'', Txt ''Ghana''), (''Code'', Txt ''GHA''), (''Gender'', Num 0),
                      (''Year'', Num 1990), (''Prevalence of diabetes (18+ years)'', Num 0.04)],
              row_of [(''Location'', Txt ''Ghana''), (''Code'', Txt ''GHA''), (''Gender'', Num 1),
                      (''Year'', Num 1990), (''Prevalence of diabetes (18+ years)'', Num 0.05)]]\<rparr>"

definition country_frame :: frame where
  "country_frame =
     \<lparr>columns = [''Country'', ''Country_Code'', ''Year'', ''GDP''],
      rows = [row_of [(''Country'', Txt ''Ghana''), (''Country_Code'', Txt ''GHA''),
                      (''Year'', Num 1990), (''GDP'', Num 1000)]]\<rparr>"

definition diabetes_frame :: frame where
  "diabetes_frame =
     \<lparr>columns = [''Location'', ''Code'', ''Gender'', ''Year'', ''Prevalence of diabetes (18+ years)''],
      rows = [row_of [(''Location'', Txt ''Ghana''), (''Code'', Txt ''GHA''), (''Gender'', Num 0),
                      (''Year'', Num 1989), (''Prevalence of diabetes (18+ years)'', Num 0.04)]]\<rparr>"

section \<open>Properties of the string functions\<close>






section \<open>Claims about the resolver and the region classifier\<close>



lemma get_country_code_example:
  "get_country_code (map_of [(''South Korea'', ''KOR'')]) Map.empty ''  South KOREA '' = Some ''KOR''"
  by code_simp

lemma get_region_range:
  assumes "get_region pycountry_alpha_3 alpha2_to_continent country_code = Inr region"
  shows "region \<in> region_names"
  using assms
  by (auto simp add: get_region_def manual_region_mapping_def continent_map_def region_names_def
        Let_def split: option.splits sum.splits if_splits)

lemma get_region_KeyError:
  assumes "manual_region_mapping country_code = None"
    and "length country_code = 3"
    and "pycountry_alpha_3 country_code = Some a2"
    and "alpha2_to_continent a2 = None"
  shows "get_region pycountry_alpha_3 alpha2_to_continent country_code = Inl KeyError"
  using assms
  by (simp add: get_region_def alpha3_to_alpha2_def country_alpha2_to_continent_code_def)

text \<open>
  Claim C3. \<open>get_region\<close> is documented to return a continent name or
  \<open>''Unknown Region''\<close>; every value it returns is one of these (\<open>get_region_range\<close>).
  It does not return for every valid alpha-3 code: the default \<open>''Unknown Region''\<close>
  covers only a continent code that \<open>continent_map\<close> lacks, while
  \<open>country_alpha2_to_continent_code\<close> raises \<open>KeyError\<close> for an alpha-2 code that
  the library's table lacks, and nothing catches it (\<open>get_region_KeyError\<close>). With a
  registry that knows \<open>ESH\<close> (Western Sahara, alpha-2 \<open>EH\<close>) and a table without
  \<open>EH\<close>, the call raises.
\<close>

theorem get_region_raises:
  "get_region (map_of [(''USA'', ''US''), (''ESH'', ''EH'')]) (map_of [(''US'', ''NA'')]) ''ESH''
     = Inl KeyError"
  by (simp add: get_region_def manual_region_mapping_def alpha3_to_alpha2_def
        country_alpha2_to_continent_code_def)

section \<open>Polynomial imputation: what is written\<close>

lemma number_cases: "\<not> is_text c \<Longrightarrow> notnull c \<Longrightarrow> is_number c"
  by (cases c) (simp_all add: notnull_def)

lemma is_number_not_text: "is_number c \<Longrightarrow> \<not> is_text c"
  by (cases c) simp_all

lemma is_number_not_null: "is_number c \<Longrightarrow> \<not> isnull c"
  by (cases c) (simp_all add: isnull_def)

lemma poly_call_number: "is_number c \<Longrightarrow> poly_call p c = Num (p (the_number c))"
  by (cases c) simp_all

lemma Polynomial_fit_numbers:
  assumes "x \<noteq> []" and "list_all is_number x" and "list_all is_number y"
  shows "Polynomial_fit lstsq x y deg = Inr (lstsq (map the_number x) (map the_number y) deg)"
  using assms
  by (auto simp add: Polynomial_fit_def list_ex_iff list_all_iff
        dest: is_number_not_text is_number_not_null)

lemma Polynomial_fit_empty: "Polynomial_fit lstsq [] y deg = Inl ValueError"
  by (simp add: Polynomial_fit_def)

lemma known_fit:
  assumes "numeric_series df year_col target_col"
    and "0 < known_count df target_col"
  shows "Polynomial_fit lstsq
           (map (\<lambda>r. r year_col) (filter (\<lambda>r. notnull (r target_col)) (rows df)))
           (map (\<lambda>r. r target_col) (filter (\<lambda>r. notnull (r target_col)) (rows df))) degree
         = Inr (fitted_polynomial lstsq df year_col target_col degree)"
proof -
  let ?known = "filter (\<lambda>r. notnull (r target_col)) (rows df)"
  have ne: "map (\<lambda>r. r year_col) ?known \<noteq> []"
    using assms(2) by (auto simp add: known_count_def)
  have xs: "list_all is_number (map (\<lambda>r. r year_col) ?known)"
    using assms(1) by (auto simp add: numeric_series_def list_all_iff)
  have ys: "list_all is_number (map (\<lambda>r. r target_col) ?known)"
    using assms(1) by (auto simp add: numeric_series_def list_all_iff intro: number_cases)
  show ?thesis
    using Polynomial_fit_numbers [OF ne xs ys]
    by (simp add: fitted_polynomial_def Let_def comp_def)
qed

lemma impute_with_polynomial_fits:
  assumes "numeric_series df ''Year'' target_col"
    and "0 < known_count df target_col"
  shows "impute_with_polynomial lstsq df target_col degree =
         Inr (df\<lparr>rows := map (\<lambda>r. r(target_col :=
               Num (fitted_polynomial lstsq df ''Year'' target_col degree (the_number (r ''Year'')))))
             (rows df)\<rparr>)"
proof -
  have ne: "filter (\<lambda>r. notnull (r target_col)) (rows df) \<noteq> []"
    using assms(2) by (auto simp add: known_count_def)
  have yr: "\<And>r. r \<in> set (rows df) \<Longrightarrow> is_number (r ''Year'')"
    using assms(1) by (simp add: numeric_series_def list_all_iff)
  have nt: "\<not> list_ex (\<lambda>r. is_text (r ''Year'')) (rows df)"
    using yr by (auto simp add: list_ex_iff dest: is_number_not_text)
  have cols: "target_col \<in> set (columns df)" "''Year'' \<in> set (columns df)"
    using assms(1) by (simp_all add: numeric_series_def)
  show ?thesis
    using ne nt cols known_fit [OF assms, of lstsq degree] yr
    by (simp add: impute_with_polynomial_def Let_def poly_call_number cong: map_cong)
qed

lemma impute_with_polynomial_skips:
  assumes "target_col \<in> set (columns df)" and "known_count df target_col = 0"
  shows "impute_with_polynomial lstsq df target_col degree = Inr df"
  using assms by (simp add: impute_with_polynomial_def known_count_def)

lemma diabetes_alcohol_impute_fits:
  assumes "numeric_series df year_col target_col"
    and "0 < known_count df target_col"
  shows "diabetes_alcohol_impute_with_polynomial lstsq df year_col target_col degree =
         Inr (df\<lparr>rows := map (\<lambda>r. if isnull (r target_col)
               then r(target_col :=
                 Num (fitted_polynomial lstsq df year_col target_col degree (the_number (r year_col))))
               else r)
             (rows df)\<rparr>)"
proof -
  have yr: "\<And>r. r \<in> set (rows df) \<Longrightarrow> is_number (r year_col)"
    using assms(1) by (simp add: numeric_series_def list_all_iff)
  have nt: "\<not> list_ex (\<lambda>r. is_text (r year_col)) (filter (\<lambda>r. isnull (r target_col)) (rows df))"
    using yr by (auto simp add: list_ex_iff dest: is_number_not_text)
  have cols: "target_col \<in> set (columns df)" "year_col \<in> set (columns df)"
    using assms(1) by (simp_all add: numeric_series_def)
  show ?thesis
    using nt cols known_fit [OF assms, of lstsq degree] yr
    by (simp add: diabetes_alcohol_impute_with_polynomial_def Let_def poly_call_number
          cong: map_cong)
qed

lemma diabetes_alcohol_impute_no_known:
  assumes "target_col \<in> set (columns df)" and "year_col \<in> set (columns df)"
    and "known_count df target_col = 0"
  shows "diabetes_alcohol_impute_with_polynomial lstsq df year_col target_col degree = Inl ValueError"
  using assms
  by (simp add: diabetes_alcohol_impute_with_polynomial_def known_count_def Polynomial_fit_empty)

lemma same_year_frame_ready:
  "numeric_series same_year_frame ''Year'' ''Alcohol_Value''"
  "known_count same_year_frame ''Alcohol_Value'' = 2"
  by (simp_all add: numeric_series_def known_count_def same_year_frame_def row_of_def notnull_def)

text \<open>
  Claim C1. With at least two known values, \<open>main_pipeline.impute_with_polynomial\<close>
  replaces the target of every row, known or missing, by the fitted polynomial at the row's
  year, so no target is left missing; with no known value it returns the frame as it is.
  \<open>process_diabetes_alcohol.impute_with_polynomial\<close> fits the same polynomial but assigns
  it under the mask of the missing cells only: a known value keeps its value. The first
  statement below says that the second function does not do what the first does: in
  \<open>same_year_frame\<close> two rows of the year 2000 hold 1 and 5, both stay, and no function of
  the year takes both values. The second statement is the behaviour of the two functions.
\<close>

theorem diabetes_alcohol_impute_keeps_known_values:
  "\<forall>lstsq.
     diabetes_alcohol_impute_with_polynomial lstsq same_year_frame ''Year'' ''Alcohol_Value'' 2 \<noteq>
     Inr (same_year_frame\<lparr>rows := map (\<lambda>r. r(''Alcohol_Value'' :=
            Num (fitted_polynomial lstsq same_year_frame ''Year'' ''Alcohol_Value'' 2
                   (the_number (r ''Year'')))))
          (rows same_year_frame)\<rparr>)"
proof (intro allI notI)
  fix lstsq
  define p where "p = fitted_polynomial lstsq same_year_frame ''Year'' ''Alcohol_Value'' 2"
  assume "diabetes_alcohol_impute_with_polynomial lstsq same_year_frame ''Year'' ''Alcohol_Value'' 2 =
     Inr (same_year_frame\<lparr>rows := map (\<lambda>r. r(''Alcohol_Value'' :=
            Num (fitted_polynomial lstsq same_year_frame ''Year'' ''Alcohol_Value'' 2
                   (the_number (r ''Year'')))))
          (rows same_year_frame)\<rparr>)"
  moreover have "diabetes_alcohol_impute_with_polynomial lstsq same_year_frame ''Year'' ''Alcohol_Value'' 2 =
     Inr (same_year_frame\<lparr>rows := map (\<lambda>r. if isnull (r ''Alcohol_Value'')
               then r(''Alcohol_Value'' := Num (p (the_number (r ''Year'')))) else r)
             (rows same_year_frame)\<rparr>)"
    unfolding p_def
    by (rule diabetes_alcohol_impute_fits) (simp_all add: same_year_frame_ready)
  ultimately have "same_year_frame\<lparr>rows := map (\<lambda>r. if isnull (r ''Alcohol_Value'')
               then r(''Alcohol_Value'' := Num (p (the_number (r ''Year'')))) else r)
             (rows same_year_frame)\<rparr> =
      same_year_frame\<lparr>rows := map (\<lambda>r. r(''Alcohol_Value'' := Num (p (the_number (r ''Year'')))))
          (rows same_year_frame)\<rparr>"
    by (simp add: p_def)
  then have "map (\<lambda>r. if isnull (r ''Alcohol_Value'')
               then r(''Alcohol_Value'' := Num (p (the_number (r ''Year'')))) else r)
             (rows same_year_frame) =
      map (\<lambda>r. r(''Alcohol_Value'' := Num (p (the_number (r ''Year'')))))
          (rows same_year_frame)"
    by (drule_tac f = rows in arg_cong) simp
  then have "map (\<lambda>r. r ''Alcohol_Value'')
        (map (\<lambda>r. if isnull (r ''Alcohol_Value'')
               then r(''Alcohol_Value'' := Num (p (the_number (r ''Year'')))) else r)
             (rows same_year_frame)) =
      map (\<lambda>r. r ''Alcohol_Value'')
        (map (\<lambda>r. r(''Alcohol_Value'' := Num (p (the_number (r ''Year'')))))
          (rows same_year_frame))"
    by (rule arg_cong)
  then show False
    by (auto simp add: same_year_frame_def row_of_def isnull_def)
qed

text \<open>
  Claim C1, as the code has it: the overwrite of every row and the skip on no known value
  for \<open>main_pipeline.impute_with_polynomial\<close>, the gap fill for
  \<open>process_diabetes_alcohol.impute_with_polynomial\<close>.
\<close>

theorem impute_with_polynomial_contract:
  "(numeric_series df ''Year'' target_col \<and> 2 \<le> known_count df target_col \<longrightarrow>
      impute_with_polynomial lstsq df target_col degree =
      Inr (df\<lparr>rows := map (\<lambda>r. r(target_col :=
             Num (fitted_polynomial lstsq df ''Year'' target_col degree (the_number (r ''Year'')))))
           (rows df)\<rparr>)) \<and>
   (target_col \<in> set (columns df) \<and> known_count df target_col = 0 \<longrightarrow>
      impute_with_polynomial lstsq df target_col degree = Inr df) \<and>
   (numeric_series df year_col target_col \<and> 2 \<le> known_count df target_col \<longrightarrow>
      diabetes_alcohol_impute_with_polynomial lstsq df year_col target_col degree =
      Inr (df\<lparr>rows := map (\<lambda>r. if isnull (r target_col)
             then r(target_col :=
               Num (fitted_polynomial lstsq df year_col target_col degree (the_number (r year_col))))
             else r)
           (rows df)\<rparr>))"
  using impute_with_polynomial_fits [of df target_col lstsq degree]
    impute_with_polynomial_skips [of target_col df lstsq degree]
    diabetes_alcohol_impute_fits [of df year_col target_col lstsq degree]
  by simp

theorem impute_with_polynomial_contract_witness:
  "\<forall>lstsq.
     numeric_series same_year_frame ''Year'' ''Alcohol_Value'' \<and>
     2 \<le> known_count same_year_frame ''Alcohol_Value'' \<and>
     (\<exists>df'. impute_with_polynomial lstsq same_year_frame ''Alcohol_Value'' 2 = Inr df' \<and>
        cells df' = [[Num 2000, Num (lstsq [2000, 2000] [1, 5] 2 2000)],
                     [Num 2000, Num (lstsq [2000, 2000] [1, 5] 2 2000)],
                     [Num 2001, Num (lstsq [2000, 2000] [1, 5] 2 2001)]]) \<and>
     (\<exists>df'. diabetes_alcohol_impute_with_polynomial lstsq same_year_frame ''Year''
              ''Alcohol_Value'' 2 = Inr df' \<and>
        cells df' = [[Num 2000, Num 1], [Num 2000, Num 5],
                     [Num 2001, Num (lstsq [2000, 2000] [1, 5] 2 2001)]]) \<and>
     ''Alcohol_Value'' \<in> set (columns all_missing_frame) \<and>
     known_count all_missing_frame ''Alcohol_Value'' = 0 \<and>
     impute_with_polynomial lstsq all_missing_frame ''Alcohol_Value'' 2 = Inr all_missing_frame"
proof
  fix lstsq
  have a: "numeric_series same_year_frame ''Year'' ''Alcohol_Value''"
    by (simp add: numeric_series_def same_year_frame_def row_of_def)
  have b: "known_count same_year_frame ''Alcohol_Value'' = 2"
    by (simp add: known_count_def same_year_frame_def row_of_def notnull_def)
  have c: "''Alcohol_Value'' \<in> set (columns all_missing_frame)"
    by (simp add: all_missing_frame_def)
  have d: "known_count all_missing_frame ''Alcohol_Value'' = 0"
    by (simp add: known_count_def all_missing_frame_def row_of_def notnull_def)
  have p: "fitted_polynomial lstsq same_year_frame ''Year'' ''Alcohol_Value'' 2 =
      lstsq [2000, 2000] [1, 5] 2"
    by (simp add: fitted_polynomial_def same_year_frame_def row_of_def notnull_def)
  note T = impute_with_polynomial_contract [of same_year_frame "''Alcohol_Value''" lstsq 2 "''Year''"]
  note U = impute_with_polynomial_contract [of all_missing_frame "''Alcohol_Value''" lstsq 2 "''Year''"]
  have e1: "impute_with_polynomial lstsq same_year_frame ''Alcohol_Value'' 2 =
      Inr (same_year_frame\<lparr>rows := map (\<lambda>r. r(''Alcohol_Value'' :=
             Num (lstsq [2000, 2000] [1, 5] 2 (the_number (r ''Year'')))))
           (rows same_year_frame)\<rparr>)"
    using T a b by (simp add: p)
  have e3: "diabetes_alcohol_impute_with_polynomial lstsq same_year_frame ''Year'' ''Alcohol_Value'' 2 =
      Inr (same_year_frame\<lparr>rows := map (\<lambda>r. if isnull (r ''Alcohol_Value'')
             then r(''Alcohol_Value'' := Num (lstsq [2000, 2000] [1, 5] 2 (the_number (r ''Year''))))
             else r)
           (rows same_year_frame)\<rparr>)"
    using T a b by (simp add: p)
  have e2: "impute_with_polynomial lstsq all_missing_frame ''Alcohol_Value'' 2 = Inr all_missing_frame"
    using U c d by simp
  have c1: "cells (same_year_frame\<lparr>rows := map (\<lambda>r. r(''Alcohol_Value'' :=
             Num (lstsq [2000, 2000] [1, 5] 2 (the_number (r ''Year'')))))
           (rows same_year_frame)\<rparr>) =
        [[Num 2000, Num (lstsq [2000, 2000] [1, 5] 2 2000)],
         [Num 2000, Num (lstsq [2000, 2000] [1, 5] 2 2000)],
         [Num 2001, Num (lstsq [2000, 2000] [1, 5] 2 2001)]]"
    by (simp add: cells_def same_year_frame_def row_of_def)
  have c3: "cells (same_year_frame\<lparr>rows := map (\<lambda>r. if isnull (r ''Alcohol_Value'')
             then r(''Alcohol_Value'' := Num (lstsq [2000, 2000] [1, 5] 2 (the_number (r ''Year''))))
             else r)
           (rows same_year_frame)\<rparr>) =
        [[Num 2000, Num 1], [Num 2000, Num 5],
         [Num 2001, Num (lstsq [2000, 2000] [1, 5] 2 2001)]]"
    by (simp add: cells_def same_year_frame_def row_of_def isnull_def)
  show "numeric_series same_year_frame ''Year'' ''Alcohol_Value'' \<and>
     2 \<le> known_count same_year_frame ''Alcohol_Value'' \<and>
     (\<exists>df'. impute_with_polynomial lstsq same_year_frame ''Alcohol_Value'' 2 = Inr df' \<and>
        cells df' = [[Num 2000, Num (lstsq [2000, 2000] [1, 5] 2 2000)],
                     [Num 2000, Num (lstsq [2000, 2000] [1, 5] 2 2000)],
                     [Num 2001, Num (lstsq [2000, 2000] [1, 5] 2 2001)]]) \<and>
     (\<exists>df'. diabetes_alcohol_impute_with_polynomial lstsq same_year_frame ''Year''
              ''Alcohol_Value'' 2 = Inr df' \<and>
        cells df' = [[Num 2000, Num 1], [Num 2000, Num 5],
                     [Num 2001, Num (lstsq [2000, 2000] [1, 5] 2 2001)]]) \<and>
     ''Alcohol_Value'' \<in> set (columns all_missing_frame) \<and>
     known_count all_missing_frame ''Alcohol_Value'' = 0 \<and>
     impute_with_polynomial lstsq all_missing_frame ''Alcohol_Value'' 2 = Inr all_missing_frame"
    using a b c d e2 by (simp add: e1 e3 c1 c3)
qed

text \<open>
  Claim C7. The guard of \<open>main_pipeline.impute_with_polynomial\<close> is
  \<open>known_data.empty\<close>: it skips on no known point, not on fewer than two. With exactly one
  known point the fit runs and every row is overwritten, so the frame that is returned
  differs from the one passed in as soon as a row was missing its value.
\<close>

theorem impute_with_polynomial_one_known_changes:
  "\<forall>lstsq. impute_with_polynomial lstsq one_known_frame ''GDP'' 2 \<noteq> Inr one_known_frame"
proof (intro allI notI)
  fix lstsq
  assume "impute_with_polynomial lstsq one_known_frame ''GDP'' 2 = Inr one_known_frame"
  then show False
    by (simp add: impute_with_polynomial_def one_known_frame_def row_of_def notnull_def
          Polynomial_fit_def isnull_def Let_def fun_eq_iff split: if_splits)
qed

text \<open>
  Claim C7, as the code has it: with no known point the frame is returned unchanged; with
  exactly one known point the column is overwritten by the fit, row by row.
\<close>

theorem impute_with_polynomial_degenerate:
  "(target_col \<in> set (columns df) \<and> known_count df target_col = 0 \<longrightarrow>
      impute_with_polynomial lstsq df target_col degree = Inr df) \<and>
   (numeric_series df ''Year'' target_col \<and> known_count df target_col = 1 \<longrightarrow>
      impute_with_polynomial lstsq df target_col degree =
      Inr (df\<lparr>rows := map (\<lambda>r. r(target_col :=
             Num (fitted_polynomial lstsq df ''Year'' target_col degree (the_number (r ''Year'')))))
           (rows df)\<rparr>))"
  using impute_with_polynomial_fits [of df target_col lstsq degree]
    impute_with_polynomial_skips [of target_col df lstsq degree]
  by simp

theorem impute_with_polynomial_degenerate_witness:
  "\<forall>lstsq.
     ''Alcohol_Value'' \<in> set (columns all_missing_frame) \<and>
     known_count all_missing_frame ''Alcohol_Value'' = 0 \<and>
     impute_with_polynomial lstsq all_missing_frame ''Alcohol_Value'' 2 = Inr all_missing_frame \<and>
     numeric_series one_known_frame ''Year'' ''GDP'' \<and>
     known_count one_known_frame ''GDP'' = 1 \<and>
     (\<exists>df'. impute_with_polynomial lstsq one_known_frame ''GDP'' 2 = Inr df' \<and>
        cells one_known_frame = [[Num 2000, Num 5], [Num 2001, NaN]] \<and>
        cells df' = [[Num 2000, Num (lstsq [2000] [5] 2 2000)],
                     [Num 2001, Num (lstsq [2000] [5] 2 2001)]])"
proof
  fix lstsq
  have a: "numeric_series one_known_frame ''Year'' ''GDP''"
    by (simp add: numeric_series_def one_known_frame_def row_of_def)
  have b: "known_count one_known_frame ''GDP'' = 1"
    by (simp add: known_count_def one_known_frame_def row_of_def notnull_def)
  have c: "''Alcohol_Value'' \<in> set (columns all_missing_frame)"
    by (simp add: all_missing_frame_def)
  have d: "known_count all_missing_frame ''Alcohol_Value'' = 0"
    by (simp add: known_count_def all_missing_frame_def row_of_def notnull_def)
  have p: "fitted_polynomial lstsq one_known_frame ''Year'' ''GDP'' 2 = lstsq [2000] [5] 2"
    by (simp add: fitted_polynomial_def one_known_frame_def row_of_def notnull_def)
  have e1: "impute_with_polynomial lstsq one_known_frame ''GDP'' 2 =
      Inr (one_known_frame\<lparr>rows := map (\<lambda>r. r(''GDP'' :=
             Num (lstsq [2000] [5] 2 (the_number (r ''Year'')))))
           (rows one_known_frame)\<rparr>)"
    using impute_with_polynomial_degenerate [of "''GDP''" one_known_frame lstsq 2] a b
    by (simp add: p)
  have e2: "impute_with_polynomial lstsq all_missing_frame ''Alcohol_Value'' 2 = Inr all_missing_frame"
    using impute_with_polynomial_degenerate [of "''Alcohol_Value''" all_missing_frame lstsq 2] c d
    by simp
  have c0: "cells one_known_frame = [[Num 2000, Num 5], [Num 2001, NaN]]"
    by (simp add: cells_def one_known_frame_def row_of_def)
  have c1: "cells (one_known_frame\<lparr>rows := map (\<lambda>r. r(''GDP'' :=
             Num (lstsq [2000] [5] 2 (the_number (r ''Year'')))))
           (rows one_known_frame)\<rparr>) =
        [[Num 2000, Num (lstsq [2000] [5] 2 2000)], [Num 2001, Num (lstsq [2000] [5] 2 2001)]]"
    by (simp add: cells_def one_known_frame_def row_of_def)
  show "''Alcohol_Value'' \<in> set (columns all_missing_frame) \<and>
     known_count all_missing_frame ''Alcohol_Value'' = 0 \<and>
     impute_with_polynomial lstsq all_missing_frame ''Alcohol_Value'' 2 = Inr all_missing_frame \<and>
     numeric_series one_known_frame ''Year'' ''GDP'' \<and>
     known_count one_known_frame ''GDP'' = 1 \<and>
     (\<exists>df'. impute_with_polynomial lstsq one_known_frame ''GDP'' 2 = Inr df' \<and>
        cells one_known_frame = [[Num 2000, Num 5], [Num 2001, NaN]] \<and>
        cells df' = [[Num 2000, Num (lstsq [2000] [5] 2 2000)],
                     [Num 2001, Num (lstsq [2000] [5] 2 2001)]])"
    using a b c d e2 by (simp add: e1 c0 c1)
qed

section \<open>KNN imputation: what is written\<close>

lemma valid_columns_last:
  assumes "X \<noteq> []" and "length (hd X) = Suc n" and "list_ex (\<lambda>r. notnull (r ! n)) X"
  shows "valid_columns X \<noteq> [] \<and> last (valid_columns X) = n"
  using assms by (simp add: valid_columns_def)

lemma KNNImputer_rows:
  assumes "KNNImputer_fit_transform est k X = Inr imputed"
  shows "length imputed = length X"
    and "\<And>i. i < length X \<Longrightarrow>
           imputed ! i = map (\<lambda>j. case X ! i ! j of Num v \<Rightarrow> v | _ \<Rightarrow> est k X i j) (valid_columns X)"
    and "X \<noteq> []"
    and "\<And>r c. r \<in> set X \<Longrightarrow> c \<in> set r \<Longrightarrow> \<not> is_text c"
proof -
  from assms have ne: "X \<noteq> []" and nt: "\<not> list_ex (list_ex is_text) X"
    and out: "imputed = map (\<lambda>i. map (\<lambda>j. case X ! i ! j of Num v \<Rightarrow> v | _ \<Rightarrow> est k X i j)
                          (valid_columns X)) [0..<length X]"
    by (auto simp add: KNNImputer_fit_transform_def split: if_splits)
  show "length imputed = length X"
    by (simp add: out)
  show "X \<noteq> []"
    by (rule ne)
  show "imputed ! i = map (\<lambda>j. case X ! i ! j of Num v \<Rightarrow> v | _ \<Rightarrow> est k X i j) (valid_columns X)"
    if "i < length X" for i
    using that by (simp add: out cong: cell.case_cong)
  show "\<not> is_text c" if "r \<in> set X" "c \<in> set r" for r c
    using that nt by (auto simp add: list_ex_iff)
qed

lemma impute_with_knn_rows:
  assumes "impute_with_knn est df target_col k = Inr df'"
  shows "columns df' = columns df"
    and "length (rows df') = length (rows df)"
    and "\<And>i c. i < length (rows df) \<Longrightarrow> c \<noteq> target_col \<Longrightarrow>
           (rows df' ! i) c = (rows df ! i) c"
    and "\<And>i. i < length (rows df) \<Longrightarrow> notnull ((rows df ! i) target_col) \<Longrightarrow>
           (rows df' ! i) target_col = (rows df ! i) target_col"
    and "\<And>i. i < length (rows df) \<Longrightarrow> notnull ((rows df' ! i) target_col)"
    and "\<And>i. i < length (rows df) \<Longrightarrow> is_number ((rows df' ! i) target_col)"
proof -
  define fs where "fs = sort (remdups (filter
      (\<lambda>c. c \<notin> set [''Country'', ''Country_Code'', ''Age_Group'', ''Gender'', target_col])
      (columns df)))"
  define X where "X = map (\<lambda>r. map r (fs @ [target_col])) (rows df)"
  from assms obtain imputed where
    fit: "KNNImputer_fit_transform est k X = Inr imputed"
    and nonempty: "\<not> list_ex (\<lambda>orow. orow = []) imputed"
    and df': "df' = df\<lparr>rows := map (\<lambda>(r, orow). r(target_col := Num (last orow)))
                 (zip (rows df) imputed)\<rparr>"
    by (auto simp add: impute_with_knn_def Let_def fs_def X_def split: if_splits sum.splits)
  note K = KNNImputer_rows [OF fit]
  have len: "length imputed = length (rows df)"
    using K(1) by (simp add: X_def)
  show "columns df' = columns df"
    by (simp add: df')
  show "length (rows df') = length (rows df)"
    by (simp add: df' len)
  have row: "rows df' ! i = (rows df ! i)(target_col := Num (last (imputed ! i)))"
    if "i < length (rows df)" for i
    using that len by (simp add: df')
  show "(rows df' ! i) c = (rows df ! i) c" if "i < length (rows df)" "c \<noteq> target_col" for i c
    using that row by simp
  show "notnull ((rows df' ! i) target_col)" if "i < length (rows df)" for i
    using that row by (simp add: notnull_def)
  show "is_number ((rows df' ! i) target_col)" if "i < length (rows df)" for i
    using that row by simp
  show "(rows df' ! i) target_col = (rows df ! i) target_col"
    if i: "i < length (rows df)" and known: "notnull ((rows df ! i) target_col)" for i
  proof -
    have Xi: "X ! i = map (rows df ! i) (fs @ [target_col])"
      using i by (simp add: X_def)
    have cell: "X ! i ! length fs = (rows df ! i) target_col"
      by (simp add: Xi nth_append)
    have "i < length X"
      using i by (simp add: X_def)
    then have "X ! i \<in> set X"
      by (rule nth_mem)
    moreover have "(rows df ! i) target_col \<in> set (X ! i)"
      by (simp add: Xi)
    ultimately have "\<not> is_text ((rows df ! i) target_col)"
      using K(4) by blast
    with known obtain v where v: "(rows df ! i) target_col = Num v"
      by (cases "(rows df ! i) target_col") (simp_all add: notnull_def)
    have hdX: "length (hd X) = Suc (length fs)"
      using i by (cases "rows df") (simp_all add: X_def)
    have ex: "list_ex (\<lambda>r. notnull (r ! length fs)) X"
      unfolding list_ex_iff
      using \<open>X ! i \<in> set X\<close> cell known by (intro bexI [of _ "X ! i"]) simp_all
    have vc: "valid_columns X \<noteq> []" "last (valid_columns X) = length fs"
      using valid_columns_last [OF K(3) hdX ex] by simp_all
    have "imputed ! i =
        map (\<lambda>j. case X ! i ! j of Num v \<Rightarrow> v | _ \<Rightarrow> est k X i j) (valid_columns X)"
      using K(2) i by (simp add: X_def)
    then have "last (imputed ! i) = v"
      using vc by (simp add: last_map cell v)
    then show ?thesis
      using row [OF i] v by simp
  qed
qed

lemma impute_with_knn_returns:
  assumes "knn_ready df target_col"
  shows "\<exists>df'. impute_with_knn est df target_col k = Inr df'"
proof -
  define fs where "fs = sort (remdups (filter
      (\<lambda>c. c \<notin> set [''Country'', ''Country_Code'', ''Age_Group'', ''Gender'', target_col])
      (columns df)))"
  define X where "X = map (\<lambda>r. map r (fs @ [target_col])) (rows df)"
  from assms have tc: "target_col \<in> set (columns df)" and ne: "rows df \<noteq> []"
    and num: "\<And>r. r \<in> set (rows df) \<Longrightarrow> \<not> is_text (r target_col)"
    and feat: "\<And>r c. r \<in> set (rows df) \<Longrightarrow> c \<in> set (columns df) \<Longrightarrow>
        c \<in> set [''Country'', ''Country_Code'', ''Age_Group'', ''Gender''] \<or> \<not> is_text (r c)"
    and obs: "\<exists>r \<in> set (rows df). notnull (r target_col)"
    by (auto simp add: knn_ready_def list_all_iff list_ex_iff)
  have fs_sub: "\<And>c. c \<in> set fs \<Longrightarrow> c \<in> set (columns df) \<and>
      c \<notin> set [''Country'', ''Country_Code'', ''Age_Group'', ''Gender'']"
    by (auto simp add: fs_def)
  have Xne: "X \<noteq> []"
    using ne by (simp add: X_def)
  have notext: "\<not> list_ex (list_ex is_text) X"
    using num feat fs_sub by (auto simp add: X_def list_ex_iff)
  have hdX: "length (hd X) = Suc (length fs)"
    using ne by (cases "rows df") (simp_all add: X_def)
  from obs obtain r where r: "r \<in> set (rows df)" "notnull (r target_col)"
    by blast
  have "map r (fs @ [target_col]) \<in> set X"
    unfolding X_def set_map using r(1) by (rule imageI)
  moreover have "notnull (map r (fs @ [target_col]) ! length fs)"
    using r(2) by (simp add: nth_append)
  ultimately have "list_ex (\<lambda>x. notnull (x ! length fs)) X"
    unfolding list_ex_iff by (rule bexI [rotated])
  then have vc: "valid_columns X \<noteq> []"
    using valid_columns_last [OF Xne hdX] by simp
  define imputed where "imputed = map (\<lambda>i. map (\<lambda>j. case X ! i ! j of
      Num v \<Rightarrow> v | _ \<Rightarrow> est k X i j) (valid_columns X)) [0..<length X]"
  have fit: "KNNImputer_fit_transform est k X = Inr imputed"
    using Xne notext by (simp add: KNNImputer_fit_transform_def imputed_def)
  have full: "\<not> list_ex (\<lambda>orow. orow = []) imputed"
    using vc by (auto simp add: imputed_def list_ex_iff)
  show ?thesis
    unfolding impute_with_knn_def Let_def fs_def [symmetric] X_def [symmetric]
    using tc fit full by simp
qed



section \<open>The tail of the pipeline: the GDP rule\<close>

lemma apply_knn_imputation_rows:
  assumes "apply_knn_imputation est df cols = Inr df'"
  shows "columns df' = columns df \<and> length (rows df') = length (rows df) \<and>
         (\<forall>i < length (rows df). \<forall>c. notnull ((rows df ! i) c) \<longrightarrow>
            (rows df' ! i) c = (rows df ! i) c)"
  using assms
proof (induction cols arbitrary: df)
  case Nil
  then show ?case by simp
next
  case (Cons col cols)
  from Cons.prems obtain d where d: "impute_with_knn est df col 5 = Inr d"
    and rest: "apply_knn_imputation est d cols = Inr df'"
    by (auto split: sum.splits)
  note K = impute_with_knn_rows [OF d]
  note IH = Cons.IH [OF rest]
  have keep: "(rows d ! i) c = (rows df ! i) c"
    if "i < length (rows df)" "notnull ((rows df ! i) c)" for i c
    using that K(3,4) by (cases "c = col") auto
  show ?case
    using IH K(1,2) keep by auto
qed

lemma set_negative_gdp_to_nan_rows:
  assumes "set_negative_gdp_to_nan df = Inr df'"
  shows "columns df' = columns df" and "length (rows df') = length (rows df)"
    and "\<And>i. i < length (rows df) \<Longrightarrow>
           (rows df' ! i) ''GDP'' =
             (case (rows df ! i) ''GDP'' of
                Num v \<Rightarrow> if v < 0 then NaN else Num v
              | c \<Rightarrow> c)"
proof -
  from assms have df': "df' = df\<lparr>rows :=
          map (\<lambda>r. case r ''GDP'' of
                     Num v \<Rightarrow> if v < 0 then r(''GDP'' := NaN) else r
                   | _ \<Rightarrow> r)
            (rows df)\<rparr>"
    by (auto simp add: set_negative_gdp_to_nan_def split: if_splits)
  show "columns df' = columns df" "length (rows df') = length (rows df)"
    by (simp_all add: df')
  show "(rows df' ! i) ''GDP'' =
             (case (rows df ! i) ''GDP'' of
                Num v \<Rightarrow> if v < 0 then NaN else Num v
              | c \<Rightarrow> c)" if "i < length (rows df)" for i
    using that by (simp add: df' split: cell.splits)
qed

lemma drop_unnecessary_columns_rows:
  "length (rows (drop_unnecessary_columns df)) = length (rows df)"
  "i < length (rows df) \<Longrightarrow>
     (rows (drop_unnecessary_columns df) ! i) ''GDP'' = (rows df ! i) ''GDP''"
  by (simp_all add: drop_unnecessary_columns_def)

lemma cleaned_final_data_gdp:
  assumes "cleaned_final_data est merged_df = Inr final"
  shows "length (rows final) = length (rows merged_df)"
    and "\<And>i. i < length (rows merged_df) \<Longrightarrow>
          \<exists>imputed. apply_knn_imputation est merged_df columns_to_impute = Inr imputed \<and>
            length (rows imputed) = length (rows merged_df) \<and>
            (rows final ! i) ''GDP'' =
              (case (rows imputed ! i) ''GDP'' of
                 Num v \<Rightarrow> if v < 0 then NaN else Num v
               | c \<Rightarrow> c)"
proof -
  from assms obtain imputed cleaned where
    i: "apply_knn_imputation est merged_df columns_to_impute = Inr imputed"
    and c: "set_negative_gdp_to_nan imputed = Inr cleaned"
    and f: "final = drop_unnecessary_columns cleaned"
    by (auto simp add: cleaned_final_data_def split: sum.splits)
  note I = apply_knn_imputation_rows [OF i]
  note C = set_negative_gdp_to_nan_rows [OF c]
  show "length (rows final) = length (rows merged_df)"
    using I C(2) by (simp add: f drop_unnecessary_columns_rows)
  show "\<exists>imputed. apply_knn_imputation est merged_df columns_to_impute = Inr imputed \<and>
            length (rows imputed) = length (rows merged_df) \<and>
            (rows final ! i) ''GDP'' =
              (case (rows imputed ! i) ''GDP'' of
                 Num v \<Rightarrow> if v < 0 then NaN else Num v
               | c \<Rightarrow> c)" if "i < length (rows merged_df)" for i
    using that i I C(2) C(3) [of i]
    by (intro exI [of _ imputed]) (simp add: f drop_unnecessary_columns_rows)
qed

lemma knn_ready_preserved:
  assumes r: "impute_with_knn est df target_col k = Inr df'" and ready: "knn_ready df c"
  shows "knn_ready df' c"
proof -
  note K = impute_with_knn_rows [OF r]
  from ready have c: "c \<in> set (columns df)" and ne: "rows df \<noteq> []"
    and num': "\<And>r. r \<in> set (rows df) \<Longrightarrow> \<not> is_text (r c)"
    and feat': "\<And>r x. r \<in> set (rows df) \<Longrightarrow> x \<in> set (columns df) \<Longrightarrow>
        x \<in> set [''Country'', ''Country_Code'', ''Age_Group'', ''Gender''] \<or> \<not> is_text (r x)"
    and obs: "\<exists>i < length (rows df). notnull ((rows df ! i) c)"
    unfolding knn_ready_def list_all_iff list_ex_length by blast+
  have num: "\<not> is_text ((rows df ! i) c)" if "i < length (rows df)" for i
    using that num' by simp
  have feat: "x \<in> set [''Country'', ''Country_Code'', ''Age_Group'', ''Gender''] \<or>
        \<not> is_text ((rows df ! i) x)" if "i < length (rows df)" "x \<in> set (columns df)" for i x
    using that feat' [of "rows df ! i" x] by simp
  have cell: "\<not> is_text ((rows df ! i) x) \<Longrightarrow> \<not> is_text ((rows df' ! i) x)"
    if "i < length (rows df)" for i x
    using that K(3) [of i x] K(6) [of i] by (cases "x = target_col") (auto dest: is_number_not_text)
  have known: "notnull ((rows df ! i) x) \<Longrightarrow> notnull ((rows df' ! i) x)"
    if "i < length (rows df)" for i x
    using that K(3) [of i x] K(5) [of i] by (cases "x = target_col") auto
  have "rows df' \<noteq> []"
    using ne K(2) by (cases "rows df'") auto
  moreover have "\<forall>r \<in> set (rows df'). \<not> is_text (r c) \<and>
      (\<forall>x \<in> set (columns df'). x \<in> set [''Country'', ''Country_Code'', ''Age_Group'', ''Gender''] \<or>
         \<not> is_text (r x))"
  proof (intro impI conjI ballI)
    fix r assume "r \<in> set (rows df')"
    then obtain i where i: "i < length (rows df')" and r: "r = rows df' ! i"
      by (auto simp add: in_set_conv_nth)
    from i have i': "i < length (rows df)" using K(2) by simp
    show "\<not> is_text (r c)"
      using cell [OF i'] num [OF i'] r by blast
    fix x assume "x \<in> set (columns df')"
    then have x: "x \<in> set (columns df)" using K(1) by simp
    show "x \<in> set [''Country'', ''Country_Code'', ''Age_Group'', ''Gender''] \<or> \<not> is_text (r x)"
      using feat [OF i' x] cell [OF i'] r by blast
  qed
  moreover have "\<exists>i < length (rows df'). notnull ((rows df' ! i) c)"
    using obs known K(2) by auto
  moreover have "c \<in> set (columns df')"
    using c K(1) by simp
  ultimately show ?thesis
    unfolding knn_ready_def list_all_iff list_ex_length by blast
qed

lemma apply_knn_imputation_returns:
  assumes "\<forall>c \<in> set cols. knn_ready df c"
  shows "\<exists>df'. apply_knn_imputation est df cols = Inr df'"
  using assms
proof (induction cols arbitrary: df)
  case Nil
  then show ?case by simp
next
  case (Cons col cols)
  then have "knn_ready df col" by simp
  then obtain d where d: "impute_with_knn est df col 5 = Inr d"
    using impute_with_knn_returns by blast
  have "\<forall>c \<in> set cols. knn_ready d c"
    using Cons.prems knn_ready_preserved [OF d] by simp
  from Cons.IH [OF this] d show ?case
    by simp
qed

lemma apply_knn_imputation_ready:
  assumes "apply_knn_imputation est df cols = Inr df'" and "knn_ready df c"
  shows "knn_ready df' c"
  using assms
proof (induction cols arbitrary: df)
  case Nil
  then show ?case by simp
next
  case (Cons col cols)
  from Cons.prems(1) obtain d where d: "impute_with_knn est df col 5 = Inr d"
    and rest: "apply_knn_imputation est d cols = Inr df'"
    by (auto split: sum.splits)
  show ?case
    using Cons.IH [OF rest knn_ready_preserved [OF d Cons.prems(2)]] .
qed

lemma cleaned_final_data_returns:
  assumes "\<forall>c \<in> set columns_to_impute. knn_ready merged_df c"
  shows "\<exists>final. cleaned_final_data est merged_df = Inr final"
proof -
  from apply_knn_imputation_returns [OF assms] obtain imputed where
    i: "apply_knn_imputation est merged_df columns_to_impute = Inr imputed"
    by blast
  have "knn_ready merged_df ''GDP''"
    using assms by (simp add: columns_to_impute_def)
  then have "knn_ready imputed ''GDP''"
    by (rule apply_knn_imputation_ready [OF i])
  then have "''GDP'' \<in> set (columns imputed)"
    and "\<not> list_ex (\<lambda>r. is_text (r ''GDP'')) (rows imputed)"
    by (auto simp add: knn_ready_def list_all_iff list_ex_iff)
  then show ?thesis
    using i by (simp add: cleaned_final_data_def set_negative_gdp_to_nan_def)
qed

lemma gdp_frame_ready: "\<forall>c \<in> set columns_to_impute. knn_ready gdp_frame c"
  by (simp add: columns_to_impute_def knn_ready_def gdp_frame_def row_of_def notnull_def)

lemma apply_knn_imputation_fills:
  assumes "apply_knn_imputation est df cols = Inr df'" and "c \<in> set cols"
    and "i < length (rows df)"
  shows "notnull ((rows df' ! i) c)"
  using assms
proof (induction cols arbitrary: df)
  case Nil
  then show ?case by simp
next
  case (Cons col cols)
  from Cons.prems(1) obtain d where d: "impute_with_knn est df col 5 = Inr d"
    and rest: "apply_knn_imputation est d cols = Inr df'"
    by (auto split: sum.splits)
  note K = impute_with_knn_rows [OF d]
  have i: "i < length (rows d)"
    using Cons.prems(3) K(2) by simp
  show ?case
  proof (cases "c = col")
    case True
    then have "notnull ((rows d ! i) c)"
      using K(5) Cons.prems(3) by simp
    then show ?thesis
      using apply_knn_imputation_rows [OF rest] i by auto
  next
    case False
    then have "c \<in> set cols"
      using Cons.prems(2) by simp
    then show ?thesis
      using Cons.IH [OF rest _ i] by simp
  qed
qed

lemma map_two: "length xs = 2 \<Longrightarrow> map f xs = [f (xs ! 0), f (xs ! 1)]"
  by (cases xs; cases "tl xs") auto

lemma col_values_two:
  "length (rows df) = 2 \<Longrightarrow> col_values df c = [(rows df ! 0) c, (rows df ! 1) c]"
  by (simp add: col_values_def map_two)

lemma col_values_length: "length (col_values df c) = length (rows df)"
  by (simp add: col_values_def)

lemma gdp_frame_gdp: "col_values gdp_frame ''GDP'' = [Num (-100), Num 200]"
  by (simp add: col_values_def gdp_frame_def row_of_def)

lemma gdp_frame_imputed:
  "\<exists>imputed. apply_knn_imputation est gdp_frame columns_to_impute = Inr imputed \<and>
     col_values imputed ''GDP'' = [Num (-100), Num 200]"
proof -
  from apply_knn_imputation_returns [OF gdp_frame_ready] obtain imputed where
    i: "apply_knn_imputation est gdp_frame columns_to_impute = Inr imputed"
    by blast
  note I = apply_knn_imputation_rows [OF i]
  have len: "length (rows gdp_frame) = 2"
    by (simp add: gdp_frame_def)
  have "(rows imputed ! 0) ''GDP'' = Num (-100)" "(rows imputed ! 1) ''GDP'' = Num 200"
    using I by (simp_all add: gdp_frame_def row_of_def notnull_def)
  then have "col_values imputed ''GDP'' = [Num (-100), Num 200]"
    using I len by (simp add: col_values_two)
  with i show ?thesis by blast
qed

lemma gdp_frame_final:
  "\<exists>final. cleaned_final_data est gdp_frame = Inr final \<and>
     col_values final ''GDP'' = [NaN, Num 200]"
proof -
  from cleaned_final_data_returns [OF gdp_frame_ready] obtain final where
    f: "cleaned_final_data est gdp_frame = Inr final"
    by blast
  have len: "length (rows gdp_frame) = 2"
    by (simp add: gdp_frame_def)
  from gdp_frame_imputed [of est] obtain imputed where
    i: "apply_knn_imputation est gdp_frame columns_to_impute = Inr imputed"
    and g: "col_values imputed ''GDP'' = [Num (-100), Num 200]"
    by blast
  have cellwise: "(rows final ! k) ''GDP'' =
      (case (rows imputed ! k) ''GDP'' of Num v \<Rightarrow> if v < 0 then NaN else Num v | c \<Rightarrow> c)"
    if "k < 2" for k
    using cleaned_final_data_gdp(2) [OF f, of k] that len i by auto
  have li: "length (rows imputed) = 2"
    using apply_knn_imputation_rows [OF i] len by simp
  from g have "(rows imputed ! 0) ''GDP'' = Num (-100)" "(rows imputed ! 1) ''GDP'' = Num 200"
    by (simp_all add: col_values_two [OF li])
  then have "(rows final ! 0) ''GDP'' = NaN" "(rows final ! 1) ''GDP'' = Num 200"
    using cellwise [of 0] cellwise [of 1] by simp_all
  moreover have "length (rows final) = 2"
    using cleaned_final_data_gdp(1) [OF f] len by simp
  ultimately have "col_values final ''GDP'' = [NaN, Num 200]"
    by (simp add: col_values_two)
  with f show ?thesis by blast
qed

lemma gdp_cleared_before_imputation_filled:
  assumes "gdp_cleared_before_imputation est merged_df = Inr out"
    and "i < length (rows merged_df)"
  shows "notnull ((rows out ! i) ''GDP'')"
proof -
  from assms(1) obtain cleaned imputed where
    c: "set_negative_gdp_to_nan merged_df = Inr cleaned"
    and im: "apply_knn_imputation est cleaned columns_to_impute = Inr imputed"
    and out: "out = drop_unnecessary_columns imputed"
    by (auto simp add: gdp_cleared_before_imputation_def split: sum.splits)
  have i: "i < length (rows cleaned)"
    using set_negative_gdp_to_nan_rows(2) [OF c] assms(2) by simp
  have "notnull ((rows imputed ! i) ''GDP'')"
    by (rule apply_knn_imputation_fills [OF im _ i]) (simp add: columns_to_impute_def)
  moreover have "i < length (rows imputed)"
    using apply_knn_imputation_rows [OF im] i by simp
  ultimately show ?thesis
    by (simp add: out drop_unnecessary_columns_rows)
qed

text \<open>
  Claim C6. The script imputes first and applies the GDP rule afterwards. In
  \<open>gdp_frame\<close> the first row has the GDP \<open>-100\<close>: the imputation loop runs with that
  value in place and returns it unchanged, as an observed value; the rule then sets it to
  \<open>NaN\<close>, and nothing imputes it again, so the written table has a missing GDP. Had the
  value been cleared before the imputation (\<open>gdp_cleared_before_imputation\<close>), the
  imputation of the GDP column would have filled the cell: the two orders give different
  tables, whatever the imputer's estimate is.
\<close>

theorem negative_gdp_not_cleared_before_imputation:
  "\<forall>est.
     (\<exists>imputed. apply_knn_imputation est gdp_frame columns_to_impute = Inr imputed \<and>
        col_values imputed ''GDP'' = [Num (-100), Num 200]) \<and>
     (\<exists>final. cleaned_final_data est gdp_frame = Inr final \<and>
        col_values final ''GDP'' = [NaN, Num 200]) \<and>
     cleaned_final_data est gdp_frame \<noteq> gdp_cleared_before_imputation est gdp_frame"
proof (intro allI conjI)
  fix est
  show "\<exists>imputed. apply_knn_imputation est gdp_frame columns_to_impute = Inr imputed \<and>
        col_values imputed ''GDP'' = [Num (-100), Num 200]"
    by (rule gdp_frame_imputed)
  show "\<exists>final. cleaned_final_data est gdp_frame = Inr final \<and>
        col_values final ''GDP'' = [NaN, Num 200]"
    by (rule gdp_frame_final)
  show "cleaned_final_data est gdp_frame \<noteq> gdp_cleared_before_imputation est gdp_frame"
  proof
    assume eq: "cleaned_final_data est gdp_frame = gdp_cleared_before_imputation est gdp_frame"
    from gdp_frame_final [of est] obtain final where
      f: "cleaned_final_data est gdp_frame = Inr final"
      and g: "col_values final ''GDP'' = [NaN, Num 200]"
      by blast
    have "length (rows final) = 2"
      using arg_cong [OF g, of length] by (simp add: col_values_length)
    with g have "(rows final ! 0) ''GDP'' = NaN"
      by (simp add: col_values_two)
    moreover have "notnull ((rows final ! 0) ''GDP'')"
    proof (rule gdp_cleared_before_imputation_filled [of est gdp_frame])
      show "gdp_cleared_before_imputation est gdp_frame = Inr final"
        using eq f by simp
      show "0 < length (rows gdp_frame)"
        by (simp add: gdp_frame_def)
    qed
    ultimately show False
      by (simp add: notnull_def)
  qed
qed

text \<open>
  Claim C6, as the code has it: the imputation keeps every observed GDP, negative ones
  included; in the written table no GDP is negative, and the cell of a negative raw GDP is
  missing. The tail of the pipeline returns a table on every merged frame that is ready for
  the imputation of each of the ten columns.
\<close>

theorem negative_gdp_cleared_after_imputation:
  "(apply_knn_imputation est merged_df columns_to_impute = Inr imputed \<longrightarrow>
      (\<forall>i < length (rows merged_df). \<forall>v.
         (rows merged_df ! i) ''GDP'' = Num v \<longrightarrow> (rows imputed ! i) ''GDP'' = Num v)) \<and>
   (cleaned_final_data est merged_df = Inr final \<longrightarrow>
      length (rows final) = length (rows merged_df) \<and>
      (\<forall>i < length (rows merged_df). \<forall>v.
         (rows final ! i) ''GDP'' = Num v \<longrightarrow> 0 \<le> v) \<and>
      (\<forall>i < length (rows merged_df). \<forall>v.
         (rows merged_df ! i) ''GDP'' = Num v \<and> v < 0 \<longrightarrow> (rows final ! i) ''GDP'' = NaN)) \<and>
   ((\<forall>c \<in> set columns_to_impute. knn_ready merged_df c) \<longrightarrow>
      (\<exists>final'. cleaned_final_data est merged_df = Inr final'))"
proof (intro conjI impI allI)
  assume "\<forall>c \<in> set columns_to_impute. knn_ready merged_df c"
  then show "\<exists>final'. cleaned_final_data est merged_df = Inr final'"
    by (rule cleaned_final_data_returns)
next
  fix i v
  assume "apply_knn_imputation est merged_df columns_to_impute = Inr imputed"
    and "i < length (rows merged_df)" and "(rows merged_df ! i) ''GDP'' = Num v"
  then show "(rows imputed ! i) ''GDP'' = Num v"
    using apply_knn_imputation_rows [of est merged_df columns_to_impute imputed]
    by (auto simp add: notnull_def)
next
  assume "cleaned_final_data est merged_df = Inr final"
  then show "length (rows final) = length (rows merged_df)"
    by (rule cleaned_final_data_gdp(1))
next
  fix i v
  assume f: "cleaned_final_data est merged_df = Inr final"
    and i: "i < length (rows merged_df)" and v: "(rows final ! i) ''GDP'' = Num v"
  from cleaned_final_data_gdp(2) [OF f i] obtain imputed where
    im: "apply_knn_imputation est merged_df columns_to_impute = Inr imputed"
    and fin: "(rows final ! i) ''GDP'' =
              (case (rows imputed ! i) ''GDP'' of
                 Num v \<Rightarrow> if v < 0 then NaN else Num v
               | c \<Rightarrow> c)"
    by blast
  show "0 \<le> v"
  proof (cases "(rows imputed ! i) ''GDP''")
    case (Num w)
    with fin v show ?thesis by (cases "w < 0") simp_all
  qed (use fin v in simp_all)
next
  fix i v
  assume f: "cleaned_final_data est merged_df = Inr final"
    and i: "i < length (rows merged_df)"
    and v: "(rows merged_df ! i) ''GDP'' = Num v \<and> v < 0"
  from cleaned_final_data_gdp(2) [OF f i] obtain imputed where
    im: "apply_knn_imputation est merged_df columns_to_impute = Inr imputed"
    and fin: "(rows final ! i) ''GDP'' =
              (case (rows imputed ! i) ''GDP'' of
                 Num v \<Rightarrow> if v < 0 then NaN else Num v
               | c \<Rightarrow> c)"
    by blast
  have "(rows imputed ! i) ''GDP'' = Num v"
    using apply_knn_imputation_rows [OF im] i v by (auto simp add: notnull_def)
  with fin v show "(rows final ! i) ''GDP'' = NaN"
    by simp
qed


theorem negative_gdp_cleared_after_imputation_witness:
  "\<forall>est.
     (\<forall>c \<in> set columns_to_impute. knn_ready gdp_frame c) \<and>
     col_values gdp_frame ''GDP'' = [Num (-100), Num 200] \<and>
     (\<exists>final. cleaned_final_data est gdp_frame = Inr final \<and>
        length (rows final) = 2 \<and>
        (rows final ! 0) ''GDP'' = NaN \<and> (rows final ! 1) ''GDP'' = Num 200)"
proof (intro allI conjI)
  fix est
  show ready: "\<forall>c \<in> set columns_to_impute. knn_ready gdp_frame c"
    by (rule gdp_frame_ready)
  show "col_values gdp_frame ''GDP'' = [Num (-100), Num 200]"
    by (rule gdp_frame_gdp)
  have len: "length (rows gdp_frame) = 2"
    by (simp add: gdp_frame_def)
  have raw: "(rows gdp_frame ! 0) ''GDP'' = Num (-100)" "(rows gdp_frame ! 1) ''GDP'' = Num 200"
    by (simp_all add: gdp_frame_def row_of_def)
  from gdp_frame_final [of est] obtain final where
    f: "cleaned_final_data est gdp_frame = Inr final"
    and g: "col_values final ''GDP'' = [NaN, Num 200]"
    by blast
  note T = negative_gdp_cleared_after_imputation [of est gdp_frame _ final]
  from T f have l2: "length (rows final) = 2"
    using len by simp
  from T f raw(1) len have "(rows final ! 0) ''GDP'' = NaN"
    by auto
  moreover from g l2 have "(rows final ! 1) ''GDP'' = Num 200"
    by (simp add: col_values_two)
  ultimately show "\<exists>final. cleaned_final_data est gdp_frame = Inr final \<and>
        length (rows final) = 2 \<and>
        (rows final ! 0) ''GDP'' = NaN \<and> (rows final ! 1) ''GDP'' = Num 200"
    using f l2 by blast
qed

section \<open>Disease metrics: what the regression imputation writes\<close>

lemma impute_with_polynomial_fit_skips:
  assumes "target_column \<in> set (columns df)"
    and "\<not> list_ex (\<lambda>r. isnull (r target_column)) (rows df)"
  shows "impute_with_polynomial_fit regress df target_column predictor_columns degree = Inr df"
  using assms by (simp add: impute_with_polynomial_fit_def)

lemma impute_with_polynomial_fit_cases:
  assumes "impute_with_polynomial_fit regress df target_column predictor_columns degree = Inr df'"
  shows "df' = df \<or>
         df' = df\<lparr>rows :=
            map (\<lambda>r. if isnull (r target_column)
                     then r(target_column :=
                            Num (max (model_predict regress df target_column
                                        predictor_columns degree r) 0))
                     else r)
              (rows df)\<rparr>"
  using assms unfolding impute_with_polynomial_fit_def Let_def
  by (simp split: if_splits)

lemma impute_with_polynomial_fit_rows:
  assumes "impute_with_polynomial_fit regress df target_column predictor_columns degree = Inr df'"
  shows "columns df' = columns df" and "length (rows df') = length (rows df)"
    and "\<And>i c. i < length (rows df) \<Longrightarrow> c \<noteq> target_column \<Longrightarrow>
           (rows df' ! i) c = (rows df ! i) c"
    and "\<And>i. i < length (rows df) \<Longrightarrow> notnull ((rows df ! i) target_column) \<Longrightarrow>
           (rows df' ! i) target_column = (rows df ! i) target_column"
    and "\<And>i. i < length (rows df) \<Longrightarrow> isnull ((rows df ! i) target_column) \<Longrightarrow>
           (rows df' ! i) target_column = NaN \<or>
           (\<exists>v. (rows df' ! i) target_column = Num v \<and> 0 \<le> v)"
proof -
  from impute_with_polynomial_fit_cases [OF assms] consider "df' = df"
    | "df' = df\<lparr>rows :=
            map (\<lambda>r. if isnull (r target_column)
                     then r(target_column :=
                            Num (max (model_predict regress df target_column
                                        predictor_columns degree r) 0))
                     else r)
              (rows df)\<rparr>"
    by (elim disjE)
  note cases = this
  show "columns df' = columns df"
    by (rule cases) simp_all
  show "length (rows df') = length (rows df)"
    by (rule cases) simp_all
  show "(rows df' ! i) c = (rows df ! i) c" if "i < length (rows df)" "c \<noteq> target_column" for i c
    using that by (rule_tac cases) simp_all
  show "(rows df' ! i) target_column = (rows df ! i) target_column"
    if "i < length (rows df)" "notnull ((rows df ! i) target_column)" for i
    using that by (rule_tac cases) (simp_all add: notnull_def isnull_def)
  show "(rows df' ! i) target_column = NaN \<or>
           (\<exists>v. (rows df' ! i) target_column = Num v \<and> 0 \<le> v)"
    if "i < length (rows df)" "isnull ((rows df ! i) target_column)" for i
    using that by (rule_tac cases) (simp_all add: isnull_def)
qed

lemma impute_with_polynomial_fit_fills:
  assumes "regression_ready df target_column predictor_columns"
    and "list_ex (\<lambda>r. isnull (r target_column)) (rows df)"
  shows "impute_with_polynomial_fit regress df target_column predictor_columns degree =
         Inr (df\<lparr>rows :=
            map (\<lambda>r. if isnull (r target_column)
                     then r(target_column :=
                            Num (max (model_predict regress df target_column
                                        predictor_columns degree r) 0))
                     else r)
              (rows df)\<rparr>)"
proof -
  from assms(1) have t: "target_column \<in> set (columns df)" and pne: "predictor_columns \<noteq> []"
    and pc: "\<not> list_ex (\<lambda>c. c \<notin> set (columns df)) predictor_columns"
    and num: "\<And>r c. r \<in> set (rows df) \<Longrightarrow> c \<in> set predictor_columns \<Longrightarrow> is_number (r c)"
    and nt: "\<And>r. r \<in> set (rows df) \<Longrightarrow> \<not> is_text (r target_column)"
    and obs: "\<exists>r \<in> set (rows df). notnull (r target_column)"
    unfolding regression_ready_def list_all_iff list_ex_iff by blast+
  have nn: "r c \<noteq> NaN" if "r \<in> set (rows df)" "c \<in> set predictor_columns" for r c
    using num [OF that] by (cases "r c") simp_all
  have valid: "filter (\<lambda>r. list_all (\<lambda>c. notnull (r c)) predictor_columns) (rows df) = rows df"
    using nn by (simp add: list_all_iff notnull_def)
  have known: "is_number (r target_column)" if "r \<in> set (rows df)" "\<not> isnull (r target_column)" for r
    using that nt [of r] by (cases "r target_column") (simp_all add: isnull_def)
  have train: "filter (\<lambda>r. \<not> isnull (r target_column)) (rows df) \<noteq> []"
    using obs by (auto simp add: filter_empty_conv notnull_def isnull_def)
  have rne: "rows df \<noteq> []"
    using obs by auto
  have X: "list_all (list_all is_number)
      (map (\<lambda>r. map r predictor_columns) (filter (\<lambda>r. \<not> isnull (r target_column)) (rows df)))"
    using num by (auto simp add: list_all_iff)
  have y: "list_all is_number
      (map (\<lambda>r. r target_column) (filter (\<lambda>r. \<not> isnull (r target_column)) (rows df)))"
    using known by (auto simp add: list_all_iff)
  have Xm: "list_all (list_all is_number)
      (map (\<lambda>r. map r predictor_columns) (filter (\<lambda>r. isnull (r target_column)) (rows df)))"
    using num by (auto simp add: list_all_iff)
  show ?thesis
    unfolding impute_with_polynomial_fit_def Let_def valid
    using t assms(2) pc rne train pne X y Xm by simp
qed

lemma impute_with_polynomial_fit_returns:
  assumes "regression_ready df target_column predictor_columns"
  shows "\<exists>df'. impute_with_polynomial_fit regress df target_column predictor_columns degree = Inr df' \<and>
           list_all (\<lambda>r. is_number (r target_column)) (rows df')"
proof -
  from assms have t: "target_column \<in> set (columns df)"
    and nt: "\<And>r. r \<in> set (rows df) \<Longrightarrow> \<not> is_text (r target_column)"
    unfolding regression_ready_def list_all_iff by blast+
  have known: "is_number (r target_column)" if "r \<in> set (rows df)" "\<not> isnull (r target_column)" for r
    using that nt [of r] by (cases "r target_column") (simp_all add: isnull_def)
  show ?thesis
  proof (cases "list_ex (\<lambda>r. isnull (r target_column)) (rows df)")
    case False
    then have "impute_with_polynomial_fit regress df target_column predictor_columns degree = Inr df"
      using t by (simp add: impute_with_polynomial_fit_def)
    moreover have "list_all (\<lambda>r. is_number (r target_column)) (rows df)"
      using False known by (auto simp add: list_all_iff list_ex_iff)
    ultimately show ?thesis by simp
  next
    case True
    have "list_all (\<lambda>r. is_number (r target_column))
        (map (\<lambda>r. if isnull (r target_column)
                 then r(target_column :=
                        Num (max (model_predict regress df target_column predictor_columns degree r) 0))
                 else r)
          (rows df))"
      using known by (auto simp add: list_all_iff)
    then show ?thesis
      using impute_with_polynomial_fit_fills [OF assms True, of regress degree] by simp
  qed
qed

text \<open>
  Claim C10. \<open>_impute_with_polynomial_fit\<close> returns the frame as it is when the target
  column has no missing value. Whenever it returns, the columns and the number of rows are
  the same, every cell outside the target column and every target cell that was not missing
  is unchanged, and a target cell that changed holds a number that is not negative: the
  prediction is clamped at zero by \<open>np.maximum\<close>. On a frame that is ready for the
  regression it returns, and no target cell is left missing.
\<close>

theorem impute_with_polynomial_fit_contract:
  "(target_column \<in> set (columns df) \<and> \<not> list_ex (\<lambda>r. isnull (r target_column)) (rows df) \<longrightarrow>
      impute_with_polynomial_fit regress df target_column predictor_columns degree = Inr df) \<and>
   (impute_with_polynomial_fit regress df target_column predictor_columns degree = Inr df' \<longrightarrow>
      columns df' = columns df \<and> length (rows df') = length (rows df) \<and>
      (\<forall>i < length (rows df). \<forall>c.
         c \<noteq> target_column \<or> notnull ((rows df ! i) target_column) \<longrightarrow>
         (rows df' ! i) c = (rows df ! i) c) \<and>
      (\<forall>i < length (rows df).
         (rows df' ! i) target_column \<noteq> (rows df ! i) target_column \<longrightarrow>
         (\<exists>v. (rows df' ! i) target_column = Num v \<and> 0 \<le> v))) \<and>
   (regression_ready df target_column predictor_columns \<longrightarrow>
      (\<exists>df''. impute_with_polynomial_fit regress df target_column predictor_columns degree = Inr df'' \<and>
         list_all (\<lambda>r. is_number (r target_column)) (rows df'')))"
proof (intro conjI impI allI)
  assume "target_column \<in> set (columns df) \<and> \<not> list_ex (\<lambda>r. isnull (r target_column)) (rows df)"
  then show "impute_with_polynomial_fit regress df target_column predictor_columns degree = Inr df"
    by (simp add: impute_with_polynomial_fit_skips)
next
  assume r: "impute_with_polynomial_fit regress df target_column predictor_columns degree = Inr df'"
  note R = impute_with_polynomial_fit_rows [OF r]
  show "columns df' = columns df" by (rule R(1))
  show "length (rows df') = length (rows df)" by (rule R(2))
  {
    fix i c
    assume "i < length (rows df)" "c \<noteq> target_column \<or> notnull ((rows df ! i) target_column)"
    then show "(rows df' ! i) c = (rows df ! i) c"
      using R(3,4) by (cases "c = target_column") auto
  }
  {
    fix i
    assume i: "i < length (rows df)"
      and ch: "(rows df' ! i) target_column \<noteq> (rows df ! i) target_column"
    then have "isnull ((rows df ! i) target_column)"
      using R(4) [OF i] by (auto simp add: isnull_def notnull_def)
    from R(5) [OF i this] ch this
    show "\<exists>v. (rows df' ! i) target_column = Num v \<and> 0 \<le> v"
      by (auto simp add: isnull_def)
  }
next
  assume "regression_ready df target_column predictor_columns"
  then show "\<exists>df''. impute_with_polynomial_fit regress df target_column predictor_columns degree = Inr df'' \<and>
         list_all (\<lambda>r. is_number (r target_column)) (rows df'')"
    by (rule impute_with_polynomial_fit_returns)
qed

theorem impute_with_polynomial_fit_contract_witness:
  "\<forall>regress.
     regression_ready rate_frame ''IncidenceRate'' [''Year''] \<and>
     cells rate_frame = [[Txt ''A'', Num 2000, Num 3], [Txt ''A'', Num 2001, NaN]] \<and>
     (\<exists>df'. impute_with_polynomial_fit regress rate_frame ''IncidenceRate'' [''Year''] 2 = Inr df' \<and>
        cells df' = [[Txt ''A'', Num 2000, Num 3],
                     [Txt ''A'', Num 2001, Num (max (regress [[2000]] [3] 2 [2001]) 0)]]) \<and>
     ''Year'' \<in> set (columns rate_frame) \<and>
     \<not> list_ex (\<lambda>r. isnull (r ''Year'')) (rows rate_frame) \<and>
     impute_with_polynomial_fit regress rate_frame ''Year'' [''IncidenceRate''] 2 = Inr rate_frame"
proof
  fix regress
  have a: "regression_ready rate_frame ''IncidenceRate'' [''Year'']"
    by (simp add: regression_ready_def rate_frame_def row_of_def notnull_def)
  have c0: "cells rate_frame = [[Txt ''A'', Num 2000, Num 3], [Txt ''A'', Num 2001, NaN]]"
    by (simp add: cells_def rate_frame_def row_of_def)
  have b: "''Year'' \<in> set (columns rate_frame)"
    "\<not> list_ex (\<lambda>r. isnull (r ''Year'')) (rows rate_frame)"
    by (simp_all add: rate_frame_def row_of_def isnull_def)
  note T = impute_with_polynomial_fit_contract
    [of "''IncidenceRate''" rate_frame regress "[''Year'']" 2 rate_frame]
  note U = impute_with_polynomial_fit_contract
    [of "''Year''" rate_frame regress "[''IncidenceRate'']" 2 rate_frame]
  from T [THEN conjunct2, THEN conjunct2, rule_format, OF a] obtain df' where
    r: "impute_with_polynomial_fit regress rate_frame ''IncidenceRate'' [''Year''] 2 = Inr df'"
    by (elim exE conjE)
  have m: "list_ex (\<lambda>r. isnull (r ''IncidenceRate'')) (rows rate_frame)"
    by (simp add: rate_frame_def row_of_def isnull_def)
  have p: "model_predict regress rate_frame ''IncidenceRate'' [''Year''] 2 (rows rate_frame ! 1) =
      regress [[2000]] [3] 2 [2001]"
    by (simp add: model_predict_def rate_frame_def row_of_def notnull_def isnull_def)
  have "df' = rate_frame\<lparr>rows :=
            map (\<lambda>r. if isnull (r ''IncidenceRate'')
                     then r(''IncidenceRate'' :=
                            Num (max (model_predict regress rate_frame ''IncidenceRate''
                                        [''Year''] 2 r) 0))
                     else r)
              (rows rate_frame)\<rparr>"
    using impute_with_polynomial_fit_fills [OF a m, of regress 2] r by simp
  then have "cells df' = [[Txt ''A'', Num 2000, Num 3],
      [Txt ''A'', Num 2001,
       Num (max (model_predict regress rate_frame ''IncidenceRate'' [''Year''] 2 (rows rate_frame ! 1)) 0)]]"
    by (simp add: cells_def rate_frame_def row_of_def isnull_def)
  then have c1: "cells df' = [[Txt ''A'', Num 2000, Num 3],
                     [Txt ''A'', Num 2001, Num (max (regress [[2000]] [3] 2 [2001]) 0)]]"
    by (simp only: p)
  from U [THEN conjunct1, rule_format] b
  have u: "impute_with_polynomial_fit regress rate_frame ''Year'' [''IncidenceRate''] 2 =
      Inr rate_frame"
    by simp
  show "regression_ready rate_frame ''IncidenceRate'' [''Year''] \<and>
     cells rate_frame = [[Txt ''A'', Num 2000, Num 3], [Txt ''A'', Num 2001, NaN]] \<and>
     (\<exists>df'. impute_with_polynomial_fit regress rate_frame ''IncidenceRate'' [''Year''] 2 = Inr df' \<and>
        cells df' = [[Txt ''A'', Num 2000, Num 3],
                     [Txt ''A'', Num 2001, Num (max (regress [[2000]] [3] 2 [2001]) 0)]]) \<and>
     ''Year'' \<in> set (columns rate_frame) \<and>
     \<not> list_ex (\<lambda>r. isnull (r ''Year'')) (rows rate_frame) \<and>
     impute_with_polynomial_fit regress rate_frame ''Year'' [''IncidenceRate''] 2 = Inr rate_frame"
    using a c0 r c1 b u by simp
qed

section \<open>Adding the missing years: placeholders and repeated keys\<close>

lemma collect_map:
  assumes "collect (map f xs) = Inr vs"
  shows "vs = map (\<lambda>x. projr (f x)) xs \<and> (\<forall>x \<in> set xs. f x = Inr (projr (f x)))"
  using assms
proof (induction xs arbitrary: vs)
  case Nil
  then show ?case by simp
next
  case (Cons x xs)
  from Cons.prems obtain v ws where v: "f x = Inr v" and ws: "collect (map f xs) = Inr ws"
    and vs: "vs = v # ws"
    by (auto split: sum.splits)
  from Cons.IH [OF ws] v vs show ?case by simp
qed

lemma collect_all_Inr:
  assumes "\<forall>x \<in> set xs. \<exists>v. f x = Inr v"
  shows "collect (map f xs) = Inr (map (\<lambda>x. projr (f x)) xs)"
  using assms by (induction xs) auto

lemma unique_set [simp]: "set (unique xs) = set xs"
  by (simp add: unique_def)

lemma unique_distinct [simp]: "distinct (unique xs)"
  by (simp add: unique_def)

lemma map_of_nan:
  "map_of (map (\<lambda>col. (col, NaN)) cols) k = (if k \<in> set cols then Some NaN else None)"
  by (induction cols) auto

lemma row_of_append_nan:
  "row_of (kvs @ map (\<lambda>col. (col, NaN)) cols) k = row_of kvs k"
  by (simp add: row_of_def map_of_append map_add_def map_of_nan split: option.splits)

lemma row_of_nan_append:
  "row_of (map (\<lambda>col. (col, NaN)) cols @ kvs) k = (if k \<in> set cols then NaN else row_of kvs k)"
  by (simp add: row_of_def map_of_append map_add_def map_of_nan split: option.splits)

lemma count_distinct:
  "distinct xs \<Longrightarrow> length (filter (\<lambda>x. x = a) xs) = (if a \<in> set xs then 1 else 0)"
  by (induction xs) auto


lemma adding_new_row_Inr:
  assumes "adding_new_row df country year = Inr r"
  shows "r ''Location'' = country" and "r ''Year'' = Num (real year)"
    and "r ''Code'' = first_code ''Location'' ''Code'' df country"
    and "\<And>col. col \<notin> set [''Location'', ''Year'', ''Code''] \<Longrightarrow> r col = NaN"
    and "country \<noteq> NaN"
proof -
  from assms obtain first others where
    f: "filter (\<lambda>r. cell_eq (r ''Location'') country) (rows df) = first # others"
    and r: "r = row_of ([(''Location'', country), (''Year'', Num (real year)),
                        (''Code'', first ''Code'')] @
                       map (\<lambda>col. (col, NaN))
                         (filter (\<lambda>col. col \<notin> set [''Location'', ''Year'', ''Code''])
                            (columns df)))"
    by (auto simp add: adding_new_row_def split: list.splits)
  have cell: "r k = row_of [(''Location'', country), (''Year'', Num (real year)),
                        (''Code'', first ''Code'')] k" for k
    unfolding r by (rule row_of_append_nan)
  show "r ''Location'' = country" "r ''Year'' = Num (real year)"
    by (simp_all add: cell row_of_def)
  show "r ''Code'' = first_code ''Location'' ''Code'' df country"
    by (simp add: cell row_of_def first_code_def f)
  show "r col = NaN" if "col \<notin> set [''Location'', ''Year'', ''Code'']" for col
    using that by (simp add: cell row_of_def)
  have "first \<in> set (filter (\<lambda>r. cell_eq (r ''Location'') country) (rows df))"
    by (simp add: f)
  then show "country \<noteq> NaN"
    by (auto simp add: cell_eq_def)
qed

lemma adding_new_row_returns:
  assumes "r \<in> set (rows df)" and "r ''Location'' \<noteq> NaN"
  shows "\<exists>new. adding_new_row df (r ''Location'') year = Inr new"
proof -
  have "filter (\<lambda>x. cell_eq (x ''Location'') (r ''Location'')) (rows df) \<noteq> []"
    using assms by (auto simp add: filter_empty_conv cell_eq_def)
  then show ?thesis
    by (auto simp add: adding_new_row_def split: list.splits)
qed

lemma add_new_row_Inr:
  assumes "add_new_row df country year = Inr r"
  shows "r ''Country'' = country" and "r ''Year'' = Num (real year)"
    and "r ''Country_Code'' = first_code ''Country'' ''Country_Code'' df country"
    and "\<And>col. col \<notin> set [''Country'', ''Year'', ''Country_Code''] \<Longrightarrow> r col = NaN"
    and "country \<noteq> NaN"
proof -
  let ?others = "filter (\<lambda>col. col \<notin> set [''Country'', ''Year'', ''Country_Code'']) (columns df)"
  from assms obtain first others where
    f: "filter (\<lambda>r. cell_eq (r ''Country'') country) (rows df) = first # others"
    and r: "r = row_of (map (\<lambda>col. (col, NaN)) ?others @
                       [(''Country'', country), (''Year'', Num (real year)),
                        (''Country_Code'', first ''Country_Code'')])"
    by (auto simp add: add_new_row_def split: list.splits)
  have cell: "r k = (if k \<in> set ?others then NaN
      else row_of [(''Country'', country), (''Year'', Num (real year)),
                   (''Country_Code'', first ''Country_Code'')] k)" for k
    unfolding r by (rule row_of_nan_append)
  show "r ''Country'' = country" "r ''Year'' = Num (real year)"
    by (simp_all add: cell row_of_def)
  show "r ''Country_Code'' = first_code ''Country'' ''Country_Code'' df country"
    by (simp add: cell row_of_def first_code_def f)
  show "r col = NaN" if "col \<notin> set [''Country'', ''Year'', ''Country_Code'']" for col
    using that by (simp add: cell row_of_def)
  have "first \<in> set (filter (\<lambda>r. cell_eq (r ''Country'') country) (rows df))"
    by (simp add: f)
  then show "country \<noteq> NaN"
    by (auto simp add: cell_eq_def)
qed

lemma add_new_row_returns:
  assumes "r \<in> set (rows df)" and "r ''Country'' \<noteq> NaN"
  shows "\<exists>new. add_new_row df (r ''Country'') year = Inr new"
proof -
  have "filter (\<lambda>x. cell_eq (x ''Country'') (r ''Country'')) (rows df) \<noteq> []"
    using assms by (auto simp add: filter_empty_conv cell_eq_def)
  then show ?thesis
    by (auto simp add: add_new_row_def split: list.splits)
qed

text \<open>Placeholders: one per pair, each keyed by its pair.\<close>

lemma placeholder_count:
  fixes key_c key_y :: string
  assumes keyed: "\<And>c n. (c, n) \<in> set (List.product cs ys) \<Longrightarrow>
      g (c, n) key_c = c \<and> g (c, n) key_y = Num (real n)"
    and "distinct cs" and "distinct ys"
  shows "length (filter (\<lambda>r. r key_c = country \<and> r key_y = year) (map g (List.product cs ys))) =
         (if country \<in> set cs \<and> year \<in> (\<lambda>n. Num (real n)) ` set ys then 1 else 0)"
proof -
  let ?pairs = "List.product cs ys"
  have d: "distinct ?pairs"
    using assms(2,3) by (rule distinct_product)
  have len: "length (filter (\<lambda>r. r key_c = country \<and> r key_y = year) (map g ?pairs)) =
      length (filter (\<lambda>p. g p key_c = country \<and> g p key_y = year) ?pairs)"
    by (simp add: filter_map comp_def)
  show ?thesis
  proof (cases "year \<in> (\<lambda>n. Num (real n)) ` set ys")
    case True
    then obtain n where n: "n \<in> set ys" "year = Num (real n)"
      by blast
    have "filter (\<lambda>p. g p key_c = country \<and> g p key_y = year) ?pairs =
        filter (\<lambda>p. p = (country, n)) ?pairs"
    proof (rule filter_cong [OF refl])
      fix p assume p: "p \<in> set ?pairs"
      obtain c m where cm: "p = (c, m)" by (cases p)
      from keyed [of c m] p cm have "g p key_c = c" "g p key_y = Num (real m)"
        by simp_all
      then show "(g p key_c = country \<and> g p key_y = year) = (p = (country, n))"
        using cm n(2) by auto
    qed
    then show ?thesis
      using len count_distinct [OF d, of "(country, n)"] n True by auto
  next
    case False
    have "filter (\<lambda>p. g p key_c = country \<and> g p key_y = year) ?pairs = []"
    proof (rule filter_False, rule ballI)
      fix p assume p: "p \<in> set ?pairs"
      obtain c m where cm: "p = (c, m)" by (cases p)
      from keyed [of c m] p cm have "g p key_y = Num (real m)" "m \<in> set ys"
        by simp_all
      then show "\<not> (g p key_c = country \<and> g p key_y = year)"
        using False by auto
    qed
    then show ?thesis
      using len False by simp
  qed
qed


lemma sort_values_rows:
  assumes "sort_values a b df = Inr out"
  shows "columns out = columns df"
    and "rows out = sort_key (\<lambda>r. (cell_rank (r a), cell_rank (r b))) (rows df)"
  using assms by (auto simp add: sort_values_def split: if_splits)

lemma adding_missing_years_out:
  assumes "adding_missing_years df = Inr out"
  defines "pairs \<equiv> List.product (unique (map (\<lambda>r. r ''Location'') (rows df))) years_1980_to_1989"
  defines "g \<equiv> \<lambda>p. projr (adding_new_row df (fst p) (snd p))"
  shows "rows out = sort_key (\<lambda>r. (cell_rank (r ''Location''), cell_rank (r ''Year'')))
           (rows df @ map g pairs)"
    and "\<And>c n. (c, n) \<in> set pairs \<Longrightarrow> adding_new_row df c n = Inr (g (c, n))"
proof -
  from assms(1) obtain new_rows cols where
    c: "collect (map (\<lambda>(country, year). adding_new_row df country year) pairs) = Inr new_rows"
    and s: "sort_values ''Location'' ''Year'' \<lparr>columns = cols, rows = rows df @ new_rows\<rparr> = Inr out"
    unfolding adding_missing_years_def Let_def pairs_def
    by (auto split: if_splits sum.splits)
  from collect_map [OF c] have n: "new_rows = map g pairs"
    and ok: "\<forall>p \<in> set pairs. adding_new_row df (fst p) (snd p) = Inr (g p)"
    by (auto simp add: g_def case_prod_unfold)
  show "rows out = sort_key (\<lambda>r. (cell_rank (r ''Location''), cell_rank (r ''Year'')))
           (rows df @ map g pairs)"
    using sort_values_rows(2) [OF s] n by simp
  show "adding_new_row df c n = Inr (g (c, n))" if "(c, n) \<in> set pairs" for c n
    using ok that by fastforce
qed

lemma adding_missing_years_exists:
  assumes out: "adding_missing_years df = Inr out"
    and r: "r \<in> set (rows df)" and n: "n \<in> set years_1980_to_1989"
  shows "\<exists>new \<in> set (rows out). new ''Location'' = r ''Location'' \<and>
           new ''Year'' = Num (real n) \<and>
           new ''Code'' = first_code ''Location'' ''Code'' df (r ''Location'') \<and>
           (\<forall>col. col \<notin> set [''Location'', ''Year'', ''Code''] \<longrightarrow> new col = NaN)"
proof -
  let ?pairs = "List.product (unique (map (\<lambda>r. r ''Location'') (rows df))) years_1980_to_1989"
  let ?g = "\<lambda>p. projr (adding_new_row df (fst p) (snd p))"
  note O = adding_missing_years_out [OF out]
  have p: "(r ''Location'', n) \<in> set ?pairs"
    using r n by simp
  then have new: "adding_new_row df (r ''Location'') n = Inr (?g (r ''Location'', n))"
    by (rule O(2))
  have "?g (r ''Location'', n) \<in> set (rows out)"
    using p unfolding O(1) set_sort set_append set_map by blast
  then show ?thesis
    using adding_new_row_Inr(1-4) [OF new] by blast
qed

lemma adding_missing_years_count:
  assumes out: "adding_missing_years df = Inr out"
  shows "pair_count ''Location'' ''Year'' out country year =
         pair_count ''Location'' ''Year'' df country year +
         (if country \<in> (\<lambda>r. r ''Location'') ` set (rows df) \<and>
             year \<in> (\<lambda>n. Num (real n)) ` set years_1980_to_1989 then 1 else 0)"
proof -
  let ?cs = "unique (map (\<lambda>r. r ''Location'') (rows df))"
  let ?g = "\<lambda>p. projr (adding_new_row df (fst p) (snd p))"
  note O = adding_missing_years_out [OF out]
  have keyed: "?g (c, n) ''Location'' = c \<and> ?g (c, n) ''Year'' = Num (real n)"
    if "(c, n) \<in> set (List.product ?cs years_1980_to_1989)" for c n
    using adding_new_row_Inr(1,2) [OF O(2) [OF that]] by simp
  have "length (filter (\<lambda>r. r ''Location'' = country \<and> r ''Year'' = year)
          (map ?g (List.product ?cs years_1980_to_1989))) =
        (if country \<in> set ?cs \<and> year \<in> (\<lambda>n. Num (real n)) ` set years_1980_to_1989 then 1 else 0)"
    by (rule placeholder_count [OF keyed]) (simp_all add: years_1980_to_1989_def)
  then show ?thesis
    unfolding pair_count_def O(1) filter_sort length_sort by simp
qed

lemma adding_missing_years_returns:
  assumes "years_ready ''Location'' ''Code'' df"
  shows "\<exists>out. adding_missing_years df = Inr out"
proof -
  let ?cs = "unique (map (\<lambda>r. r ''Location'') (rows df))"
  let ?pairs = "List.product ?cs years_1980_to_1989"
  let ?f = "\<lambda>(country, year). adding_new_row df country year"
  from assms have cols: "''Location'' \<in> set (columns df)" "''Code'' \<in> set (columns df)"
      "''Year'' \<in> set (columns df)"
    and strs: "\<And>r. r \<in> set (rows df) \<Longrightarrow> is_text (r ''Location'')"
    and num: "\<And>r. r \<in> set (rows df) \<Longrightarrow> is_number (r ''Year'')"
    unfolding years_ready_def list_all_iff by blast+
  have ok: "\<forall>p \<in> set ?pairs. \<exists>v. ?f p = Inr v"
  proof
    fix p assume "p \<in> set ?pairs"
    then obtain r n where r: "r \<in> set (rows df)" and p: "p = (r ''Location'', n)"
      by auto
    have "r ''Location'' \<noteq> NaN"
      using strs [OF r] by auto
    from adding_new_row_returns [OF r this, of n] show "\<exists>v. ?f p = Inr v"
      by (simp add: p)
  qed
  define new_rows where "new_rows = map (\<lambda>x. projr (?f x)) ?pairs"
  have c: "collect (map ?f ?pairs) = Inr new_rows"
    unfolding new_rows_def by (rule collect_all_Inr [OF ok])
  have newkey: "is_text (new ''Location'') \<and> is_number (new ''Year'')" if "new \<in> set new_rows" for new
  proof -
    from that obtain p where p: "p \<in> set ?pairs" and new: "new = projr (?f p)"
      by (auto simp add: new_rows_def)
    obtain c n where cn: "p = (c, n)" by (cases p)
    from ok p obtain v where v: "?f p = Inr v" by blast
    then have a: "adding_new_row df c n = Inr new"
      using new cn by simp
    from p cn obtain r where "r \<in> set (rows df)" "c = r ''Location''"
      by auto
    then have "is_text c" using strs by simp
    then show ?thesis
      using adding_new_row_Inr(1,2) [OF a] by simp
  qed
  have nm: "\<not> mixed (map (\<lambda>r. r ''Location'') (rows df @ new_rows))"
    "\<not> mixed (map (\<lambda>r. r ''Year'') (rows df @ new_rows))"
    using strs num newkey
    by (auto simp add: mixed_def list_ex_iff dest: is_number_not_text)
  show ?thesis
    unfolding adding_missing_years_def Let_def
    using cols c nm by (simp add: sort_values_def)
qed


lemma add_missing_years_out:
  assumes "add_missing_years df = Inr out"
  defines "pairs \<equiv> List.product (unique (map (\<lambda>r. r ''Country'') (rows df))) [1960..<1990]"
  defines "g \<equiv> \<lambda>p. projr (add_new_row df (fst p) (snd p))"
  shows "rows out = map g pairs"
    and "\<And>c n. (c, n) \<in> set pairs \<Longrightarrow> add_new_row df c n = Inr (g (c, n))"
proof -
  from assms(1) obtain new_rows where
    c: "collect (map (\<lambda>(country, year). add_new_row df country year) pairs) = Inr new_rows"
    and s: "rows out = new_rows"
    unfolding add_missing_years_def Let_def pairs_def
    by (auto split: if_splits sum.splits)
  from collect_map [OF c] have n: "new_rows = map g pairs"
    and ok: "\<forall>p \<in> set pairs. add_new_row df (fst p) (snd p) = Inr (g p)"
    by (auto simp add: g_def case_prod_unfold)
  show "rows out = map g pairs"
    using s n by simp
  show "add_new_row df c n = Inr (g (c, n))" if "(c, n) \<in> set pairs" for c n
    using ok that by fastforce
qed

lemma add_missing_years_exists:
  assumes out: "add_missing_years df = Inr out"
    and r: "r \<in> set (rows df)" and n: "n \<in> set [1960..<1990]"
  shows "\<exists>new \<in> set (rows out). new ''Country'' = r ''Country'' \<and>
           new ''Year'' = Num (real n) \<and>
           new ''Country_Code'' = first_code ''Country'' ''Country_Code'' df (r ''Country'') \<and>
           (\<forall>col. col \<notin> set [''Country'', ''Year'', ''Country_Code''] \<longrightarrow> new col = NaN)"
proof -
  let ?pairs = "List.product (unique (map (\<lambda>r. r ''Country'') (rows df))) [1960..<1990]"
  let ?g = "\<lambda>p. projr (add_new_row df (fst p) (snd p))"
  note O = add_missing_years_out [OF out]
  have p: "(r ''Country'', n) \<in> set ?pairs"
    using r n by simp
  then have new: "add_new_row df (r ''Country'') n = Inr (?g (r ''Country'', n))"
    by (rule O(2))
  have "?g (r ''Country'', n) \<in> set (rows out)"
    using p unfolding O(1) set_map by blast
  then show ?thesis
    using add_new_row_Inr(1-4) [OF new] by blast
qed

lemma add_missing_years_count:
  assumes out: "add_missing_years df = Inr out"
  shows "pair_count ''Country'' ''Year'' out country year =
         (if country \<in> (\<lambda>r. r ''Country'') ` set (rows df) \<and>
             year \<in> (\<lambda>n. Num (real n)) ` set [1960..<1990] then 1 else 0)"
proof -
  let ?cs = "unique (map (\<lambda>r. r ''Country'') (rows df))"
  let ?g = "\<lambda>p. projr (add_new_row df (fst p) (snd p))"
  note O = add_missing_years_out [OF out]
  have keyed: "?g (c, n) ''Country'' = c \<and> ?g (c, n) ''Year'' = Num (real n)"
    if "(c, n) \<in> set (List.product ?cs [1960..<1990])" for c n
    using add_new_row_Inr(1,2) [OF O(2) [OF that]] by simp
  have "length (filter (\<lambda>r. r ''Country'' = country \<and> r ''Year'' = year)
          (map ?g (List.product ?cs [1960..<1990]))) =
        (if country \<in> set ?cs \<and> year \<in> (\<lambda>n. Num (real n)) ` set [1960..<1990] then 1 else 0)"
    by (rule placeholder_count [OF keyed]) simp_all
  then show ?thesis
    unfolding pair_count_def O(1) by simp
qed

lemma add_missing_years_returns:
  assumes "years_ready ''Country'' ''Country_Code'' df"
  shows "\<exists>out. add_missing_years df = Inr out"
proof -
  let ?pairs = "List.product (unique (map (\<lambda>r. r ''Country'') (rows df))) [1960..<1990]"
  let ?f = "\<lambda>(country, year). add_new_row df country year"
  from assms have cols: "''Country'' \<in> set (columns df)" "''Country_Code'' \<in> set (columns df)"
    and strs: "\<And>r. r \<in> set (rows df) \<Longrightarrow> is_text (r ''Country'')"
    unfolding years_ready_def list_all_iff by blast+
  have ok: "\<forall>p \<in> set ?pairs. \<exists>v. ?f p = Inr v"
  proof
    fix p assume "p \<in> set ?pairs"
    then obtain r n where r: "r \<in> set (rows df)" and p: "p = (r ''Country'', n)"
      by auto
    have "r ''Country'' \<noteq> NaN"
      using strs [OF r] by auto
    from add_new_row_returns [OF r this, of n] show "\<exists>v. ?f p = Inr v"
      by (simp add: p)
  qed
  show ?thesis
    unfolding add_missing_years_def Let_def
    using cols collect_all_Inr [OF ok] by simp
qed

lemma year_1989: "Num 1989 \<in> (\<lambda>n. Num (real n)) ` set years_1980_to_1989"
  by (rule image_eqI [of _ _ 1989]) (simp_all add: years_1980_to_1989_def)

lemma year_1990: "Num 1990 \<notin> (\<lambda>n. Num (real n)) ` set years_1980_to_1989"
  by (auto simp add: years_1980_to_1989_def)

lemma year_1970: "Num 1970 \<in> (\<lambda>n. Num (real n)) ` set years_1980_to_1989"
  by (rule image_eqI [of _ _ 1970]) (simp_all add: years_1980_to_1989_def)

lemma diabetes_frame_ready: "years_ready ''Location'' ''Code'' diabetes_frame"
  by (simp add: years_ready_def diabetes_frame_def row_of_def)

lemma two_gender_frame_ready: "years_ready ''Location'' ''Code'' two_gender_frame"
  by (simp add: years_ready_def two_gender_frame_def row_of_def)

text \<open>
  Claim C8. The step never looks at the years a country already has, nor at how often a
  (country, year) pair occurs. \<open>diabetes_frame\<close> has a row of Ghana in 1989: the result
  holds that row and the placeholder of Ghana and 1989, so the pair occurs twice.
  \<open>two_gender_frame\<close> has one row per gender for Ghana in 1990, as the diabetes source has:
  the pair occurs twice in the input and twice in the result.
\<close>

theorem adding_missing_years_duplicates:
  "(\<exists>out. adding_missing_years diabetes_frame = Inr out \<and>
      pair_count ''Location'' ''Year'' diabetes_frame (Txt ''Ghana'') (Num 1989) = 1 \<and>
      pair_count ''Location'' ''Year'' out (Txt ''Ghana'') (Num 1989) = 2) \<and>
   (\<exists>out. adding_missing_years two_gender_frame = Inr out \<and>
      pair_count ''Location'' ''Year'' out (Txt ''Ghana'') (Num 1990) = 2)"
proof
  from adding_missing_years_returns [OF diabetes_frame_ready] obtain out where
    out: "adding_missing_years diabetes_frame = Inr out"
    by blast
  have c: "pair_count ''Location'' ''Year'' diabetes_frame (Txt ''Ghana'') (Num 1989) = 1"
    by (simp add: pair_count_def diabetes_frame_def row_of_def)
  have m: "Txt ''Ghana'' \<in> (\<lambda>r. r ''Location'') ` set (rows diabetes_frame)"
    by (simp add: diabetes_frame_def row_of_def)
  have "pair_count ''Location'' ''Year'' out (Txt ''Ghana'') (Num 1989) = 2"
    using adding_missing_years_count [OF out, of "Txt ''Ghana''" "Num 1989"] c m year_1989
    by simp
  with out c show "\<exists>out. adding_missing_years diabetes_frame = Inr out \<and>
      pair_count ''Location'' ''Year'' diabetes_frame (Txt ''Ghana'') (Num 1989) = 1 \<and>
      pair_count ''Location'' ''Year'' out (Txt ''Ghana'') (Num 1989) = 2"
    by blast
next
  from adding_missing_years_returns [OF two_gender_frame_ready] obtain out where
    out: "adding_missing_years two_gender_frame = Inr out"
    by blast
  have c: "pair_count ''Location'' ''Year'' two_gender_frame (Txt ''Ghana'') (Num 1990) = 2"
    by (simp add: pair_count_def two_gender_frame_def row_of_def)
  have "pair_count ''Location'' ''Year'' out (Txt ''Ghana'') (Num 1990) = 2"
    using adding_missing_years_count [OF out, of "Txt ''Ghana''" "Num 1990"] c year_1990
    by simp
  with out show "\<exists>out. adding_missing_years two_gender_frame = Inr out \<and>
      pair_count ''Location'' ''Year'' out (Txt ''Ghana'') (Num 1990) = 2"
    by blast
qed

text \<open>
  Claim C8, as the code has it. When \<open>_adding_missing_years\<close> returns, the result holds,
  for every country of the input and every year from 1960 to 1989, a row with that country,
  that year, the code of the country's first row, and every other column missing; and each
  (country, year) pair occurs as often as in the input, plus once if the country is in the
  input and the year is from 1960 to 1989. \<open>main_pipeline.add_missing_years\<close> returns the
  placeholders alone: the same rows, each pair exactly once. Both return on a frame that is
  ready for them.
\<close>

theorem adding_missing_years_placeholders:
  "(adding_missing_years df = Inr out \<longrightarrow>
      (\<forall>r \<in> set (rows df). \<forall>n \<in> set years_1980_to_1989.
         \<exists>new \<in> set (rows out). new ''Location'' = r ''Location'' \<and>
           new ''Year'' = Num (real n) \<and>
           new ''Code'' = first_code ''Location'' ''Code'' df (r ''Location'') \<and>
           (\<forall>col. col \<notin> set [''Location'', ''Year'', ''Code''] \<longrightarrow> new col = NaN)) \<and>
      (\<forall>country year.
         pair_count ''Location'' ''Year'' out country year =
         pair_count ''Location'' ''Year'' df country year +
         (if country \<in> (\<lambda>r. r ''Location'') ` set (rows df) \<and>
             year \<in> (\<lambda>n. Num (real n)) ` set years_1980_to_1989 then 1 else 0))) \<and>
   (add_missing_years df = Inr out' \<longrightarrow>
      (\<forall>r \<in> set (rows df). \<forall>n \<in> set [1960..<1990].
         \<exists>new \<in> set (rows out'). new ''Country'' = r ''Country'' \<and>
           new ''Year'' = Num (real n) \<and>
           new ''Country_Code'' = first_code ''Country'' ''Country_Code'' df (r ''Country'') \<and>
           (\<forall>col. col \<notin> set [''Country'', ''Year'', ''Country_Code''] \<longrightarrow> new col = NaN)) \<and>
      (\<forall>country year.
         pair_count ''Country'' ''Year'' out' country year =
         (if country \<in> (\<lambda>r. r ''Country'') ` set (rows df) \<and>
             year \<in> (\<lambda>n. Num (real n)) ` set [1960..<1990] then 1 else 0))) \<and>
   (years_ready ''Location'' ''Code'' df \<longrightarrow> (\<exists>out. adding_missing_years df = Inr out)) \<and>
   (years_ready ''Country'' ''Country_Code'' df \<longrightarrow> (\<exists>out. add_missing_years df = Inr out))"
  using adding_missing_years_exists [of df out] adding_missing_years_count [of df out]
    add_missing_years_exists [of df out'] add_missing_years_count [of df out']
    adding_missing_years_returns [of df] add_missing_years_returns [of df]
  by (intro conjI impI ballI allI) blast+

theorem adding_missing_years_placeholders_witness:
  "years_ready ''Location'' ''Code'' diabetes_frame \<and>
   (\<exists>out. adding_missing_years diabetes_frame = Inr out \<and>
      pair_count ''Location'' ''Year'' out (Txt ''Ghana'') (Num 1970) = 1 \<and>
      (\<exists>new \<in> set (rows out). new ''Location'' = Txt ''Ghana'' \<and> new ''Year'' = Num 1970 \<and>
         new ''Code'' = Txt ''GHA'' \<and> new ''Gender'' = NaN \<and>
         new ''Prevalence of diabetes (18+ years)'' = NaN)) \<and>
   years_ready ''Country'' ''Country_Code'' country_frame \<and>
   (\<exists>out. add_missing_years country_frame = Inr out \<and>
      pair_count ''Country'' ''Year'' out (Txt ''Ghana'') (Num 1970) = 1 \<and>
      (\<exists>new \<in> set (rows out). new ''Country'' = Txt ''Ghana'' \<and> new ''Year'' = Num 1970 \<and>
         new ''Country_Code'' = Txt ''GHA'' \<and> new ''GDP'' = NaN))"
proof (intro conjI)
  show a: "years_ready ''Location'' ''Code'' diabetes_frame"
    by (rule diabetes_frame_ready)
  show b: "years_ready ''Country'' ''Country_Code'' country_frame"
    by (simp add: years_ready_def country_frame_def row_of_def)
  have y: "(1970::nat) \<in> set years_1980_to_1989" "(1970::nat) \<in> set [1960..<1990]"
    by (simp_all add: years_1980_to_1989_def)
  have y': "Num 1970 \<in> (\<lambda>n. Num (real n)) ` set [1960..<1990]"
    using year_1970 by (simp add: years_1980_to_1989_def)
  {
    from adding_missing_years_placeholders [of diabetes_frame diabetes_frame diabetes_frame,
        THEN conjunct2, THEN conjunct2, THEN conjunct1, rule_format, OF a]
    obtain out where out: "adding_missing_years diabetes_frame = Inr out"
      by (elim exE)
    note T = adding_missing_years_placeholders [of diabetes_frame out diabetes_frame,
        THEN conjunct1, rule_format, OF out]
    have r: "row_of [(''Location'', Txt ''Ghana''), (''Code'', Txt ''GHA''), (''Gender'', Num 0),
                     (''Year'', Num 1989), (''Prevalence of diabetes (18+ years)'', Num 0.04)]
             \<in> set (rows diabetes_frame)"
      by (simp add: diabetes_frame_def)
    have fc: "first_code ''Location'' ''Code'' diabetes_frame (Txt ''Ghana'') = Txt ''GHA''"
      by (simp add: first_code_def diabetes_frame_def row_of_def cell_eq_def)
    from T [THEN conjunct1, rule_format, OF r y(1)]
    obtain new where n: "new \<in> set (rows out)"
      "new ''Location'' = Txt ''Ghana''"
      "new ''Year'' = Num (real (1970::nat))"
      "new ''Code'' = first_code ''Location'' ''Code'' diabetes_frame (Txt ''Ghana'')"
      "\<And>col. col \<notin> set [''Location'', ''Year'', ''Code''] \<Longrightarrow> new col = NaN"
      unfolding row_of_def by (elim bexE conjE) simp
    have "new ''Year'' = Num 1970" "new ''Code'' = Txt ''GHA''" "new ''Gender'' = NaN"
      "new ''Prevalence of diabetes (18+ years)'' = NaN"
      using n(3) n(4) n(5) [of "''Gender''"] n(5) [of "''Prevalence of diabetes (18+ years)''"]
      by (simp_all add: fc)
    with n(1,2) have "\<exists>new \<in> set (rows out). new ''Location'' = Txt ''Ghana'' \<and>
         new ''Year'' = Num 1970 \<and> new ''Code'' = Txt ''GHA'' \<and> new ''Gender'' = NaN \<and>
         new ''Prevalence of diabetes (18+ years)'' = NaN"
      by (intro bexI [of _ new]) simp_all
    moreover have "pair_count ''Location'' ''Year'' out (Txt ''Ghana'') (Num 1970) = 1"
      using T [THEN conjunct2, rule_format, of "Txt ''Ghana''" "Num 1970"] year_1970
      by (simp add: pair_count_def diabetes_frame_def row_of_def)
    ultimately show "\<exists>out. adding_missing_years diabetes_frame = Inr out \<and>
      pair_count ''Location'' ''Year'' out (Txt ''Ghana'') (Num 1970) = 1 \<and>
      (\<exists>new \<in> set (rows out). new ''Location'' = Txt ''Ghana'' \<and> new ''Year'' = Num 1970 \<and>
         new ''Code'' = Txt ''GHA'' \<and> new ''Gender'' = NaN \<and>
         new ''Prevalence of diabetes (18+ years)'' = NaN)"
      using out by blast
  }
  {
    from adding_missing_years_placeholders [of country_frame country_frame country_frame,
        THEN conjunct2, THEN conjunct2, THEN conjunct2, rule_format, OF b]
    obtain out where out: "add_missing_years country_frame = Inr out"
      by (elim exE)
    note T = adding_missing_years_placeholders [of country_frame country_frame out,
        THEN conjunct2, THEN conjunct1, rule_format, OF out]
    have r: "row_of [(''Country'', Txt ''Ghana''), (''Country_Code'', Txt ''GHA''),
                     (''Year'', Num 1990), (''GDP'', Num 1000)]
             \<in> set (rows country_frame)"
      by (simp add: country_frame_def)
    have fc: "first_code ''Country'' ''Country_Code'' country_frame (Txt ''Ghana'') = Txt ''GHA''"
      by (simp add: first_code_def country_frame_def row_of_def cell_eq_def)
    from T [THEN conjunct1, rule_format, OF r y(2)]
    obtain new where n: "new \<in> set (rows out)"
      "new ''Country'' = Txt ''Ghana''"
      "new ''Year'' = Num (real (1970::nat))"
      "new ''Country_Code'' = first_code ''Country'' ''Country_Code'' country_frame (Txt ''Ghana'')"
      "\<And>col. col \<notin> set [''Country'', ''Year'', ''Country_Code''] \<Longrightarrow> new col = NaN"
      unfolding row_of_def by (elim bexE conjE) simp
    have "new ''Year'' = Num 1970" "new ''Country_Code'' = Txt ''GHA''" "new ''GDP'' = NaN"
      using n(3) n(4) n(5) [of "''GDP''"]
      by (simp_all add: fc)
    with n(1,2) have "\<exists>new \<in> set (rows out). new ''Country'' = Txt ''Ghana'' \<and>
         new ''Year'' = Num 1970 \<and> new ''Country_Code'' = Txt ''GHA'' \<and> new ''GDP'' = NaN"
      by (intro bexI [of _ new]) simp_all
    moreover have "pair_count ''Country'' ''Year'' out (Txt ''Ghana'') (Num 1970) = 1"
      using T [THEN conjunct2, rule_format, of "Txt ''Ghana''" "Num 1970"] y'
      by (simp add: country_frame_def row_of_def)
    ultimately show "\<exists>out. add_missing_years country_frame = Inr out \<and>
      pair_count ''Country'' ''Year'' out (Txt ''Ghana'') (Num 1970) = 1 \<and>
      (\<exists>new \<in> set (rows out). new ''Country'' = Txt ''Ghana'' \<and> new ''Year'' = Num 1970 \<and>
         new ''Country_Code'' = Txt ''GHA'' \<and> new ''GDP'' = NaN)"
      using out by blast
  }
qed

end
